theory Spec2Isabelle
  imports Complex_Main
begin

section \<open>Floating-point values and numpy arrays\<close>

text \<open>
  The geometry module (\<^verbatim>\<open>odl/tomo/geometry/geometry.py\<close>) computes with numpy arrays of
  double-precision floats. The embedding idealises a finite float as a real number and
  leaves rounding out (and with it the signed zero). The non-finite values of IEEE 754 are
  kept, because numpy does not raise on a division by zero: \<^verbatim>\<open>0.0 / 0.0\<close> is \<^verbatim>\<open>nan\<close> and
  \<^verbatim>\<open>1.0 / 0.0\<close> is \<^verbatim>\<open>inf\<close>. The range of a double is modelled where the module squares its
  data, in \<^verbatim>\<open>np.linalg.norm\<close>: there a square or a sum beyond the largest double is \<^verbatim>\<open>inf\<close>
  and a square below the smallest is zero. The sums, differences and products outside the
  norm are exact.
\<close>

datatype npfloat = Fin real | PInf | NInf | NaN

fun fneg :: "npfloat \<Rightarrow> npfloat" where
  "fneg (Fin x) = Fin (- x)"
| "fneg PInf = NInf"
| "fneg NInf = PInf"
| "fneg NaN = NaN"

fun fadd :: "npfloat \<Rightarrow> npfloat \<Rightarrow> npfloat" where
  "fadd (Fin x) (Fin y) = Fin (x + y)"
| "fadd NaN _ = NaN"
| "fadd _ NaN = NaN"
| "fadd PInf NInf = NaN"
| "fadd NInf PInf = NaN"
| "fadd PInf _ = PInf"
| "fadd _ PInf = PInf"
| "fadd NInf _ = NInf"
| "fadd _ NInf = NInf"

definition fsub :: "npfloat \<Rightarrow> npfloat \<Rightarrow> npfloat" where
  "fsub a b = fadd a (fneg b)"

text \<open>The sign of an infinity after scaling by a finite factor; a zero factor gives nan.\<close>

fun scale_inf :: "bool \<Rightarrow> real \<Rightarrow> npfloat" where
  "scale_inf pos y =
     (if y = 0 then NaN else if (0 < y) = pos then PInf else NInf)"

fun fmul :: "npfloat \<Rightarrow> npfloat \<Rightarrow> npfloat" where
  "fmul (Fin x) (Fin y) = Fin (x * y)"
| "fmul NaN _ = NaN"
| "fmul _ NaN = NaN"
| "fmul PInf (Fin y) = scale_inf True y"
| "fmul NInf (Fin y) = scale_inf False y"
| "fmul (Fin x) PInf = scale_inf True x"
| "fmul (Fin x) NInf = scale_inf False x"
| "fmul PInf PInf = PInf"
| "fmul NInf NInf = PInf"
| "fmul PInf NInf = NInf"
| "fmul NInf PInf = NInf"

text \<open>
  Division as numpy's \<^verbatim>\<open>true_divide\<close> on floats: a zero divisor gives nan for a zero
  dividend and an infinity of the dividend's sign otherwise; nothing is raised.
\<close>

fun fdiv :: "npfloat \<Rightarrow> npfloat \<Rightarrow> npfloat" where
  "fdiv (Fin x) (Fin y) =
     (if y = 0 then (if x = 0 then NaN else if 0 < x then PInf else NInf)
      else Fin (x / y))"
| "fdiv NaN _ = NaN"
| "fdiv _ NaN = NaN"
| "fdiv (Fin x) PInf = Fin 0"
| "fdiv (Fin x) NInf = Fin 0"
| "fdiv PInf (Fin y) = (if 0 \<le> y then PInf else NInf)"
| "fdiv NInf (Fin y) = (if 0 \<le> y then NInf else PInf)"
| "fdiv PInf PInf = NaN"
| "fdiv PInf NInf = NaN"
| "fdiv NInf PInf = NaN"
| "fdiv NInf NInf = NaN"

fun fsqrt :: "npfloat \<Rightarrow> npfloat" where
  "fsqrt (Fin x) = (if x < 0 then NaN else Fin (sqrt x))"
| "fsqrt PInf = PInf"
| "fsqrt NInf = NaN"
| "fsqrt NaN = NaN"

definition fsum :: "npfloat list \<Rightarrow> npfloat" where
  "fsum xs = foldl fadd (Fin 0) xs"

text \<open>
  Storing an exact result as a double, rounding apart. Under round-to-nearest a magnitude
  of at least \<^verbatim>\<open>2^1024 - 2^970\<close> becomes an infinity, and a magnitude of at most
  \<^verbatim>\<open>2^-1075\<close>, half the smallest positive double, becomes zero.
\<close>

definition overflow_threshold :: real where
  "overflow_threshold = 2 ^ 1024 - 2 ^ 970"

definition underflow_threshold :: real where
  "underflow_threshold = 1 / 2 ^ 1075"

definition to_float :: "real \<Rightarrow> npfloat" where
  "to_float r =
     (if overflow_threshold \<le> r then PInf
      else if r \<le> - overflow_threshold then NInf
      else if \<bar>r\<bar> \<le> underflow_threshold then Fin 0
      else Fin r)"

fun stored :: "npfloat \<Rightarrow> npfloat" where
  "stored (Fin r) = to_float r"
| "stored x = x"

text \<open>
  A numpy array of dimension 0, 1 or 2. A two-dimensional array is the list of its rows,
  all of one length.
\<close>

datatype ndarray = Arr0 npfloat | Arr1 "npfloat list" | Arr2 "npfloat list list"

fun shape :: "ndarray \<Rightarrow> nat list" where
  "shape (Arr0 x) = []"
| "shape (Arr1 v) = [length v]"
| "shape (Arr2 m) = [length m, (case m of [] \<Rightarrow> 0 | r # _ \<Rightarrow> length r)]"

fun rank :: "ndarray \<Rightarrow> nat" where
  "rank (Arr0 x) = 0"
| "rank (Arr1 v) = 1"
| "rank (Arr2 m) = 2"

text \<open>Python exceptions; the message is the source's format string, left unformatted.\<close>

datatype exn =
    TypeError string
  | ValueError string
  | IndexError string
  | AttributeError string
  | NotImplementedError

definition ebind :: "exn + 'a \<Rightarrow> ('a \<Rightarrow> exn + 'b) \<Rightarrow> exn + 'b" where
  "ebind r f = (case r of Inl e \<Rightarrow> Inl e | Inr x \<Rightarrow> f x)"

subsection \<open>Broadcasting\<close>

text \<open>
  numpy aligns the shapes of two operands at their trailing axes, reads a missing leading
  axis as length 1, and stretches an axis of length 1 to the other operand's length. Along
  one axis: equal lengths pair up, a length-1 operand is repeated, anything else does not
  broadcast.
\<close>

definition bc :: "('a \<Rightarrow> 'b \<Rightarrow> 'c option) \<Rightarrow> 'a list \<Rightarrow> 'b list \<Rightarrow> 'c list option" where
  "bc f xs ys =
     (if length xs = length ys then those (map2 f xs ys)
      else (case xs of
              [x] \<Rightarrow> those (map (f x) ys)
            | _ \<Rightarrow> (case ys of
                      [y] \<Rightarrow> those (map (\<lambda>x. f x y) xs)
                    | _ \<Rightarrow> None)))"

fun rows :: "ndarray \<Rightarrow> npfloat list list" where
  "rows (Arr0 x) = [[x]]"
| "rows (Arr1 v) = [v]"
| "rows (Arr2 m) = m"

fun of_rows :: "nat \<Rightarrow> npfloat list list \<Rightarrow> ndarray" where
  "of_rows 0 [[x]] = Arr0 x"
| "of_rows (Suc 0) [v] = Arr1 v"
| "of_rows n m = Arr2 m"

definition np_binop :: "(npfloat \<Rightarrow> npfloat \<Rightarrow> npfloat) \<Rightarrow> ndarray \<Rightarrow> ndarray \<Rightarrow> exn + ndarray" where
  "np_binop f a b =
     (case bc (bc (\<lambda>x y. Some (f x y))) (rows a) (rows b) of
        None \<Rightarrow> Inl (ValueError ''operands could not be broadcast together'')
      | Some r \<Rightarrow> Inr (of_rows (max (rank a) (rank b)) r))"

definition np_add :: "ndarray \<Rightarrow> ndarray \<Rightarrow> exn + ndarray" where
  "np_add = np_binop fadd"

definition np_subtract :: "ndarray \<Rightarrow> ndarray \<Rightarrow> exn + ndarray" where
  "np_subtract = np_binop fsub"

definition np_multiply :: "ndarray \<Rightarrow> ndarray \<Rightarrow> exn + ndarray" where
  "np_multiply = np_binop fmul"

definition np_true_divide :: "ndarray \<Rightarrow> ndarray \<Rightarrow> exn + ndarray" where
  "np_true_divide = np_binop fdiv"

text \<open>
  The in-place division \<^verbatim>\<open>a /= b\<close>: the broadcast quotient is stored back into \<^verbatim>\<open>a\<close>, so
  it must have the shape of \<^verbatim>\<open>a\<close>.
\<close>

definition np_idivide :: "ndarray \<Rightarrow> ndarray \<Rightarrow> exn + ndarray" where
  "np_idivide a b =
     ebind (np_true_divide a b) (\<lambda>q.
       if shape q = shape a then Inr q
       else Inl (ValueError ''non-broadcastable output operand''))"

subsection \<open>Norms, products and constructors\<close>

text \<open>
  The sum of the squares as numpy accumulates it: every square and every partial sum is a
  double, so either may overflow, and a square may underflow.
\<close>

definition sumsq :: "npfloat list \<Rightarrow> npfloat" where
  "sumsq v = foldl (\<lambda>acc x. stored (fadd acc (stored (fmul x x)))) (Fin 0) v"

definition norm2 :: "npfloat list \<Rightarrow> npfloat" where
  "norm2 v = fsqrt (sumsq v)"

text \<open>\<^verbatim>\<open>np.linalg.norm(x)\<close>: the root of the sum of the squares of all entries.\<close>

definition np_linalg_norm :: "ndarray \<Rightarrow> npfloat" where
  "np_linalg_norm a = norm2 (concat (rows a))"

text \<open>\<^verbatim>\<open>np.linalg.norm(x, axis=-1)\<close>: one norm for each vector along the trailing axis.\<close>

fun np_linalg_norm_last :: "ndarray \<Rightarrow> exn + ndarray" where
  "np_linalg_norm_last (Arr0 x) =
     Inl (ValueError ''axis -1 is out of bounds for array of dimension 0'')"
| "np_linalg_norm_last (Arr1 v) = Inr (Arr0 (norm2 v))"
| "np_linalg_norm_last (Arr2 m) = Inr (Arr1 (map norm2 m))"

definition inner :: "npfloat list \<Rightarrow> npfloat list \<Rightarrow> npfloat" where
  "inner u v = fsum (map2 fmul u v)"

definition not_aligned :: "exn + ndarray" where
  "not_aligned = Inl (ValueError ''shapes not aligned'')"

fun np_dot :: "ndarray \<Rightarrow> ndarray \<Rightarrow> exn + ndarray" where
  "np_dot (Arr0 x) b = np_multiply (Arr0 x) b"
| "np_dot a (Arr0 y) = np_multiply a (Arr0 y)"
| "np_dot (Arr1 u) (Arr1 v) =
     (if length u = length v then Inr (Arr0 (inner u v)) else not_aligned)"
| "np_dot (Arr2 m) (Arr1 v) =
     (if shape (Arr2 m) ! 1 = length v then Inr (Arr1 (map (\<lambda>r. inner r v) m))
      else not_aligned)"
| "np_dot (Arr1 u) (Arr2 m) =
     (if length u = length m then Inr (Arr1 (map (inner u) (transpose m)))
      else not_aligned)"
| "np_dot (Arr2 a) (Arr2 b) =
     (if shape (Arr2 a) ! 1 = length b
      then Inr (Arr2 (map (\<lambda>r. map (inner r) (transpose b)) a))
      else not_aligned)"

text \<open>\<^verbatim>\<open>np.outer(u, v)\<close> flattens its operands.\<close>

definition np_outer :: "ndarray \<Rightarrow> ndarray \<Rightarrow> ndarray" where
  "np_outer a b =
     Arr2 (map (\<lambda>x. map (fmul x) (concat (rows b))) (concat (rows a)))"

definition np_eye :: "nat \<Rightarrow> ndarray" where
  "np_eye n = Arr2 (map (\<lambda>i. map (\<lambda>j. if i = j then Fin 1 else Fin 0) [0..<n]) [0..<n])"

text \<open>
  \<^verbatim>\<open>a[i]\<close> for a non-negative index into a one-dimensional array, the only kind of axis
  with which the constructor of the mixin returns. A scalar cannot be indexed; the rows of
  a two-dimensional array are not modelled, and indexing one raises here.
\<close>

fun np_getitem :: "ndarray \<Rightarrow> nat \<Rightarrow> exn + npfloat" where
  "np_getitem (Arr1 v) i =
     (if i < length v then Inr (v ! i) else Inl (IndexError ''index out of bounds''))"
| "np_getitem a i = Inl (IndexError ''invalid index'')"

section \<open>Collaborators: parameter domains, sampling grids, detectors\<close>

text \<open>
  \<^verbatim>\<open>IntervalProd\<close> (\<^verbatim>\<open>odl.set.domain\<close>) is used through three members only: \<^verbatim>\<open>ndim\<close>,
  the membership test behind \<^verbatim>\<open>x in dom\<close>, and \<^verbatim>\<open>contains_set\<close>. They are taken as the
  fields of a record, so every statement below holds for any implementation of them.
\<close>

datatype grid = TensorGrid "real list list" | RegularGrid "real list list"

fun coord_vectors :: "grid \<Rightarrow> real list list" where
  "coord_vectors (TensorGrid cv) = cv"
| "coord_vectors (RegularGrid cv) = cv"

text \<open>\<^verbatim>\<open>RegularGrid\<close> is a subclass of \<^verbatim>\<open>TensorGrid\<close>.\<close>

fun isinstance_RegularGrid :: "grid option \<Rightarrow> bool" where
  "isinstance_RegularGrid (Some (RegularGrid cv)) = True"
| "isinstance_RegularGrid _ = False"

record 'p IntervalProd =
  ip_ndim :: nat
  contains :: "'p \<Rightarrow> bool"
  contains_set :: "grid \<Rightarrow> bool"

record 'd Detector =
  params :: "'d IntervalProd"
  param_grid :: "grid option"
  surface :: "'d \<Rightarrow> exn + ndarray"

text \<open>
  \<^verbatim>\<open>TensorGrid.append\<close> and \<^verbatim>\<open>RegularGrid.append\<close> belong to \<^verbatim>\<open>odl.discr.grid\<close>, which is
  not part of the module. Where the module calls \<^verbatim>\<open>append\<close>, the operation is a parameter
  \<open>append_op\<close> of this type: it takes the grid and the operand as the caller passes it, absent or not.
\<close>

type_synonym grid_append = "grid \<Rightarrow> grid option \<Rightarrow> exn + grid"

section \<open>Geometry\<close>

text \<open>
  The methods that \<^verbatim>\<open>Geometry\<close> and \<^verbatim>\<open>DivergentBeamGeometry\<close> leave abstract, as a concrete
  subclass implements them. Each may raise. A method stands here as bound to its object:
  what it reads of the object, as \<^verbatim>\<open>AxisOrientedGeometry.rotation_matrix\<close> reads
  \<^verbatim>\<open>motion_params\<close>, is part of the function, so no statement below changes the attributes
  under a method.
\<close>

record 'm geometry_class =
  det_refpoint :: "'m \<Rightarrow> exn + ndarray"
  rotation_matrix :: "'m \<Rightarrow> exn + ndarray"
  src_position :: "'m \<Rightarrow> exn + ndarray"

typedecl pyobject

text \<open>
  The constructor arguments as Python passes them: any object may stand where an
  \<^verbatim>\<open>IntervalProd\<close> or a grid is expected, and \<^verbatim>\<open>agrid\<close> defaults to \<^verbatim>\<open>None\<close>.
\<close>

datatype 'm interval_arg = IntervalProdObj "'m IntervalProd" | NotIntervalProd

datatype grid_arg = PyNone | GridObj grid | NotGrid

text \<open>
  The instance attributes of a geometry object. An attribute that has not been assigned is
  \<open>None\<close>; \<^verbatim>\<open>_motion_params\<close> and \<^verbatim>\<open>_motion_grid\<close> hold whatever object was passed.
\<close>

record ('m, 'd) geometry_self =
  attr_ndim :: "int option"
  attr_implementation_cache :: "(string \<rightharpoonup> pyobject) option"
  attr_motion_params :: "'m IntervalProd option"
  attr_motion_grid :: "grid_arg option"
  attr_detector :: "'d Detector option"

definition new_object :: "('m, 'd) geometry_self" where
  "new_object =
     \<lparr>attr_ndim = None, attr_implementation_cache = None, attr_motion_params = None,
      attr_motion_grid = None, attr_detector = None\<rparr>"

definition Geometry_init :: "('m, 'd) geometry_self \<Rightarrow> int \<Rightarrow> ('m, 'd) geometry_self" where
  "Geometry_init self ndim =
     self\<lparr>attr_ndim := Some ndim, attr_implementation_cache := Some Map.empty\<rparr>"

definition Geometry_det_to_src ::
  "('m, 'd) geometry_self \<Rightarrow> 'm \<Rightarrow> 'd \<Rightarrow> bool \<Rightarrow> exn + ndarray" where
  "Geometry_det_to_src self mpar dpar normalized = Inl NotImplementedError"

text \<open>The properties read the attributes; reading an unassigned attribute raises.\<close>

definition detector_prop :: "('m, 'd) geometry_self \<Rightarrow> exn + 'd Detector" where
  "detector_prop self =
     (case attr_detector self of
        None \<Rightarrow> Inl (AttributeError ''_detector'')
      | Some d \<Rightarrow> Inr d)"

definition motion_params_prop :: "('m, 'd) geometry_self \<Rightarrow> exn + 'm IntervalProd" where
  "motion_params_prop self =
     (case attr_motion_params self of
        None \<Rightarrow> Inl (AttributeError ''_motion_params'')
      | Some ip \<Rightarrow> Inr ip)"

definition det_params_prop :: "('m, 'd) geometry_self \<Rightarrow> exn + 'd IntervalProd" where
  "det_params_prop self = ebind (detector_prop self) (\<lambda>d. Inr (params d))"

definition det_grid_prop :: "('m, 'd) geometry_self \<Rightarrow> exn + grid option" where
  "det_grid_prop self = ebind (detector_prop self) (\<lambda>d. Inr (param_grid d))"

text \<open>
  \<^verbatim>\<open>Geometry.det_point_position\<close>: Python evaluates \<^verbatim>\<open>det_refpoint\<close>, then
  \<^verbatim>\<open>rotation_matrix\<close>, then \<^verbatim>\<open>detector.surface\<close>, then the product and the sum.
\<close>

definition Geometry_det_point_position ::
  "'m geometry_class \<Rightarrow> ('m, 'd) geometry_self \<Rightarrow> 'm \<Rightarrow> 'd \<Rightarrow> exn + ndarray" where
  "Geometry_det_point_position cls self mpar dpar =
     ebind (det_refpoint cls mpar) (\<lambda>refpoint.
     ebind (rotation_matrix cls mpar) (\<lambda>rot.
     ebind (detector_prop self) (\<lambda>det.
     ebind (surface det dpar) (\<lambda>surf.
     ebind (np_dot rot surf) (\<lambda>rotated.
       np_add refpoint rotated)))))"

text \<open>
  \<^verbatim>\<open>Geometry.motion_grid\<close> of the base class, and \<^verbatim>\<open>Geometry.grid\<close> over the value of the
  \<^verbatim>\<open>motion_grid\<close> property (which a subclass may override) and of \<^verbatim>\<open>det_grid\<close>. The
  property does not look at \<^verbatim>\<open>det_grid\<close> before it hands it to \<^verbatim>\<open>append\<close>.
\<close>

definition Geometry_motion_grid :: "('m, 'd) geometry_self \<Rightarrow> grid option" where
  "Geometry_motion_grid self = None"

definition Geometry_has_motion_sampling :: "('m, 'd) geometry_self \<Rightarrow> bool" where
  "Geometry_has_motion_sampling self = (Geometry_motion_grid self \<noteq> None)"

definition Geometry_grid :: "grid_append \<Rightarrow> grid option \<Rightarrow> grid option \<Rightarrow> exn + grid" where
  "Geometry_grid append_op motion_grid det_grid =
     ebind
       (if isinstance_RegularGrid motion_grid \<and> isinstance_RegularGrid det_grid
        then (case motion_grid of
                Some g \<Rightarrow> Inr g
              | None \<Rightarrow> Inl (AttributeError ''NoneType object has no attribute append''))
        else (case motion_grid of
                None \<Rightarrow> Inl (AttributeError ''NoneType object has no attribute coord_vectors'')
              | Some g \<Rightarrow> Inr (TensorGrid (coord_vectors g))))
       (\<lambda>grid. append_op grid det_grid)"

section \<open>DivergentBeamGeometry\<close>

text \<open>
  \<^verbatim>\<open>DivergentBeamGeometry.__init__\<close>, run on the object under construction. The result is
  the exception raised, if any, and the object as the constructor left it.
\<close>

definition isinstance_IntervalProd_1d :: "'m interval_arg \<Rightarrow> bool" where
  "isinstance_IntervalProd_1d a =
     (case a of IntervalProdObj ip \<Rightarrow> ip_ndim ip = 1 | NotIntervalProd \<Rightarrow> False)"

definition DivergentBeamGeometry_init ::
  "('m, 'd) geometry_self \<Rightarrow> int \<Rightarrow> 'm interval_arg \<Rightarrow> 'd Detector \<Rightarrow> grid_arg
     \<Rightarrow> (exn + unit) \<times> ('m, 'd) geometry_self" where
  "DivergentBeamGeometry_init self ndim angle_intvl detector agrid =
     (case angle_intvl of
        NotIntervalProd \<Rightarrow>
          (Inl (TypeError ''angle parameters {!r} are not an interval.''), self)
      | IntervalProdObj ip \<Rightarrow>
          if ip_ndim ip \<noteq> 1
          then (Inl (TypeError ''angle parameters {!r} are not an interval.''), self)
          else
            let self1 = self\<lparr>attr_motion_params := Some ip,
                              attr_motion_grid := Some agrid,
                              attr_detector := Some detector\<rparr>
            in (case agrid of
                  PyNone \<Rightarrow> (Inr (), Geometry_init self1 ndim)
                | NotGrid \<Rightarrow>
                    (Inl (TypeError ''angle grid {!r} is not a `TensorGrid` instance.''), self1)
                | GridObj g \<Rightarrow>
                    if \<not> contains_set ip g
                    then (Inl (ValueError
                            ''angular grid {} not contained in angle interval {}.''), self1)
                    else (Inr (), Geometry_init self1 ndim)))"

definition DivergentBeamGeometry_motion_grid :: "('m, 'd) geometry_self \<Rightarrow> exn + grid_arg" where
  "DivergentBeamGeometry_motion_grid self =
     (case attr_motion_grid self of
        None \<Rightarrow> Inl (AttributeError ''_motion_grid'')
      | Some g \<Rightarrow> Inr g)"

definition DivergentBeamGeometry_det_to_src ::
  "'m geometry_class \<Rightarrow> ('m, 'd) geometry_self \<Rightarrow> 'm \<Rightarrow> 'd \<Rightarrow> bool \<Rightarrow> exn + ndarray" where
  "DivergentBeamGeometry_det_to_src cls self mpar dpar normalized =
     ebind (motion_params_prop self) (\<lambda>mp.
       if \<not> contains mp mpar
       then Inl (ValueError ''mpar {} is not in the valid range {}.'')
       else
     ebind (det_params_prop self) (\<lambda>dp.
       if \<not> contains dp dpar
       then Inl (ValueError ''detector parameter {} is not in the valid range {}.'')
       else
     ebind (src_position cls mpar) (\<lambda>src.
     ebind (Geometry_det_point_position cls self mpar dpar) (\<lambda>pos.
     ebind (np_subtract src pos) (\<lambda>vec.
       if normalized
       then ebind (np_linalg_norm_last vec) (\<lambda>n. np_idivide vec n)
       else Inr vec)))))"

section \<open>AxisOrientedGeometry\<close>

text \<open>
  The mixin has one attribute, \<^verbatim>\<open>_axis\<close>. Its constructor assigns the quotient first and
  checks the shape afterwards. \<^verbatim>\<open>np.asarray(axis, dtype=float)\<close> is the identity on an array
  of floats, and the norm is a scalar, which broadcasts against any shape.
\<close>

record axis_self =
  attr_axis :: "ndarray option"

definition AxisOrientedGeometry_init :: "axis_self \<Rightarrow> ndarray \<Rightarrow> (exn + unit) \<times> axis_self" where
  "AxisOrientedGeometry_init self axis =
     (case np_true_divide axis (Arr0 (np_linalg_norm axis)) of
        Inl e \<Rightarrow> (Inl e, self)
      | Inr a \<Rightarrow>
          let self1 = self\<lparr>attr_axis := Some a\<rparr>
          in if shape a \<noteq> [3]
             then (Inl (ValueError ''axis {!r} not a 3 element array-like''), self1)
             else (Inr (), self1))"

definition axis_prop :: "axis_self \<Rightarrow> exn + ndarray" where
  "axis_prop self =
     (case attr_axis self of None \<Rightarrow> Inl (AttributeError ''_axis'') | Some a \<Rightarrow> Inr a)"

text \<open>
  \<^verbatim>\<open>AxisOrientedGeometry.rotation_matrix\<close>. The mixin reads \<^verbatim>\<open>self.motion_params\<close> of the
  geometry it is combined with; it is the argument \<open>mp\<close>. The angle is a float.
\<close>

definition AxisOrientedGeometry_rotation_matrix ::
  "axis_self \<Rightarrow> real IntervalProd \<Rightarrow> real \<Rightarrow> exn + ndarray" where
  "AxisOrientedGeometry_rotation_matrix self mp angle =
     (if \<not> contains mp angle
      then Inl (ValueError ''angle {} is not in the valid range {}.'')
      else
        ebind (axis_prop self) (\<lambda>axis.
        ebind (np_getitem axis 2) (\<lambda>a2.
        ebind (np_getitem axis 1) (\<lambda>a1.
        ebind (np_getitem axis 0) (\<lambda>a0.
          let cross_mat = Arr2 [[Fin 0, fneg a2, a1],
                                [a2, Fin 0, fneg a0],
                                [fneg a1, a0, Fin 0]];
              dy_mat = np_outer axis axis;
              id_mat = np_eye 3;
              cos_ang = cos angle;
              sin_ang = sin angle
          in
            ebind (np_multiply (Arr0 (Fin cos_ang)) id_mat) (\<lambda>t1.
            ebind (np_multiply (Arr0 (Fin (1 - cos_ang))) dy_mat) (\<lambda>t2.
            ebind (np_add t1 t2) (\<lambda>t12.
            ebind (np_multiply (Arr0 (Fin sin_ang)) cross_mat) (\<lambda>t3.
              np_add t12 t3)))))))))"

section \<open>Notions used in the statements\<close>

text \<open>Applying a function to every entry of an array.\<close>

fun array_map :: "(npfloat \<Rightarrow> npfloat) \<Rightarrow> ndarray \<Rightarrow> ndarray" where
  "array_map f (Arr0 x) = Arr0 (f x)"
| "array_map f (Arr1 v) = Arr1 (map f v)"
| "array_map f (Arr2 m) = Arr2 (map (map f) m)"

text \<open>
  The Euclidean norm of the entries of an array, in exact arithmetic: the norm of the
  statements, where \<open>np_linalg_norm\<close> is the norm that numpy computes.
\<close>

definition euclidean_norm :: "ndarray \<Rightarrow> npfloat" where
  "euclidean_norm a = fsqrt (fsum (map (\<lambda>x. fmul x x) (concat (rows a))))"

text \<open>
  The vectors whose squares numpy computes up to rounding: every non-zero entry has a square
  that is a normal double, at least \<^verbatim>\<open>2^-1022\<close>, and the sum of the squares is at most
  \<^verbatim>\<open>2^1023\<close>. The bound is half the largest power of two below the overflow threshold, so
  that the rounding of the squares and of the partial sums cannot carry the sum past it.
\<close>

definition square_sum_bound :: real where
  "square_sum_bound = 2 ^ 1023"

definition float_min_normal :: real where
  "float_min_normal = 1 / 2 ^ 1022"

definition squares_in_range :: "real list \<Rightarrow> bool" where
  "squares_in_range v \<longleftrightarrow>
     list_all (\<lambda>x. x = 0 \<or> float_min_normal \<le> x * x) v \<and> (\<Sum>x\<leftarrow>v. x * x) \<le> square_sum_bound"

text \<open>
  A matrix applied to a vector, in the arithmetic of the floats: for each row the sum of
  the products of its entries with the entries of the vector.
\<close>

definition mat_vec :: "npfloat list list \<Rightarrow> npfloat list \<Rightarrow> npfloat list" where
  "mat_vec R s = map (\<lambda>row. fsum (map (\<lambda>(x, y). fmul x y) (zip row s))) R"

text \<open>
  The specification's invalid-argument conditions are the two exception classes the
  constructors raise for a bad argument.
\<close>

fun invalid_argument :: "exn \<Rightarrow> bool" where
  "invalid_argument (TypeError msg) = True"
| "invalid_argument (ValueError msg) = True"
| "invalid_argument e = False"

text \<open>
  Rodrigues' formula as the specification writes it, entry by entry:
  \<open>R = cos \<theta> \<cdot> I + (1 - cos \<theta>) \<cdot> (a \<otimes> a) + sin \<theta> \<cdot> K\<close>, with \<open>K\<close> the cross-product matrix
  of \<open>a\<close>.
\<close>

definition identity_entry :: "nat \<Rightarrow> nat \<Rightarrow> npfloat" where
  "identity_entry i j = (if i = j then Fin 1 else Fin 0)"

definition outer_entry :: "npfloat list \<Rightarrow> nat \<Rightarrow> nat \<Rightarrow> npfloat" where
  "outer_entry a i j = fmul (a ! i) (a ! j)"

definition cross_product_matrix :: "npfloat list \<Rightarrow> npfloat list list" where
  "cross_product_matrix a =
     [[Fin 0, fneg (a ! 2), a ! 1],
      [a ! 2, Fin 0, fneg (a ! 0)],
      [fneg (a ! 1), a ! 0, Fin 0]]"

definition rodrigues_entry :: "npfloat list \<Rightarrow> real \<Rightarrow> nat \<Rightarrow> nat \<Rightarrow> npfloat" where
  "rodrigues_entry a \<theta> i j =
     fadd (fadd (fmul (Fin (cos \<theta>)) (identity_entry i j))
                (fmul (Fin (1 - cos \<theta>)) (outer_entry a i j)))
          (fmul (Fin (sin \<theta>)) (cross_product_matrix a ! i ! j))"

definition rodrigues_formula :: "npfloat list \<Rightarrow> real \<Rightarrow> ndarray" where
  "rodrigues_formula a \<theta> =
     Arr2 (map (\<lambda>i. map (\<lambda>j. rodrigues_entry a \<theta> i j) [0, 1, 2]) [0, 1, 2])"

text \<open>Transpose and the determinant of a 3\<times>3 matrix, by expansion along the first row.\<close>

fun np_transpose :: "ndarray \<Rightarrow> ndarray" where
  "np_transpose (Arr2 m) = Arr2 (transpose m)"
| "np_transpose a = a"

fun det3 :: "ndarray \<Rightarrow> npfloat option" where
  "det3 (Arr2 [[a, b, c], [d, e, f], [g, h, i]]) =
     Some (fadd (fsub (fmul a (fsub (fmul e i) (fmul f h)))
                      (fmul b (fsub (fmul d i) (fmul f g))))
                (fmul c (fsub (fmul d h) (fmul e g))))"
| "det3 a = None"

definition proper_rotation :: "ndarray \<Rightarrow> bool" where
  "proper_rotation R \<longleftrightarrow>
     np_dot (np_transpose R) R = Inr (np_eye 3) \<and> det3 R = Some (Fin 1)"

subsection \<open>Example objects\<close>

text \<open>The interval \<open>[0, 1]\<close> as a one-dimensional parameter domain.\<close>

definition example_interval :: "real IntervalProd" where
  "example_interval =
     \<lparr>ip_ndim = 1,
      contains = (\<lambda>x. 0 \<le> x \<and> x \<le> 1),
      contains_set = (\<lambda>g. list_all (\<lambda>x. 0 \<le> x \<and> x \<le> 1) (concat (coord_vectors g)))\<rparr>"

definition example_detector :: "real Detector" where
  "example_detector =
     \<lparr>params = example_interval,
      param_grid = None,
      surface = (\<lambda>d. Inr (Arr1 [Fin 0, Fin d, Fin 0]))\<rparr>"

definition example_self :: "(real, real) geometry_self" where
  "example_self =
     snd (DivergentBeamGeometry_init new_object 3 (IntervalProdObj example_interval)
            example_detector PyNone)"

definition example_axis_self :: axis_self where
  "example_axis_self =
     snd (AxisOrientedGeometry_init \<lparr>attr_axis = None\<rparr> (Arr1 [Fin 0, Fin 0, Fin 2]))"

text \<open>
  A cone-beam geometry turning about the third axis: the detector reference point on the
  unit circle, the source opposite to it, the rotation that of the mixin.
\<close>

definition example_class :: "real geometry_class" where
  "example_class =
     \<lparr>det_refpoint = (\<lambda>m. Inr (Arr1 [Fin (cos m), Fin (sin m), Fin 0])),
      rotation_matrix = AxisOrientedGeometry_rotation_matrix example_axis_self example_interval,
      src_position = (\<lambda>m. Inr (Arr1 [Fin (- cos m), Fin (- sin m), Fin 0]))\<rparr>"

text \<open>
  The same geometry with a rotation that the subclass writes out itself, without a check of
  the angle.
\<close>

definition unchecked_class :: "real geometry_class" where
  "unchecked_class =
     example_class
       \<lparr>rotation_matrix :=
          (\<lambda>m. Inr (Arr2 [[Fin (cos m), Fin (- sin m), Fin 0],
                          [Fin (sin m), Fin (cos m), Fin 0],
                          [Fin 0, Fin 0, Fin 1]]))\<rparr>"

text \<open>The same geometry with the source placed on the detector reference point.\<close>

definition coincident_class :: "real geometry_class" where
  "coincident_class = example_class\<lparr>src_position := det_refpoint example_class\<rparr>"

text \<open>Two finite doubles whose squares are not: \<^verbatim>\<open>2^700\<close> and \<^verbatim>\<open>2^-700\<close>.\<close>

definition example_huge :: real where
  "example_huge = 2 ^ 700"

definition example_tiny :: real where
  "example_tiny = 1 / 2 ^ 700"

text \<open>
  A geometry whose primitives take an array of angles and return one row for each: the
  detector does not turn, and the positions are those of the geometry above.
\<close>

definition batched_interval :: "real list IntervalProd" where
  "batched_interval =
     \<lparr>ip_ndim = 1,
      contains = list_all (\<lambda>x. 0 \<le> x \<and> x \<le> 1),
      contains_set = (\<lambda>g. list_all (\<lambda>x. 0 \<le> x \<and> x \<le> 1) (concat (coord_vectors g)))\<rparr>"

definition batched_self :: "(real list, real) geometry_self" where
  "batched_self =
     snd (DivergentBeamGeometry_init new_object 3 (IntervalProdObj batched_interval)
            example_detector PyNone)"

definition batched_class :: "real list geometry_class" where
  "batched_class =
     \<lparr>det_refpoint = (\<lambda>ms. Inr (Arr2 (map (\<lambda>m. [Fin (cos m), Fin (sin m), Fin 0]) ms))),
      rotation_matrix = (\<lambda>ms. Inr (np_eye 3)),
      src_position = (\<lambda>ms. Inr (Arr2 (map (\<lambda>m. [Fin (- cos m), Fin (- sin m), Fin 0]) ms)))\<rparr>"

section \<open>Properties\<close>

subsection \<open>Auxiliary facts\<close>

lemma ebind_simps [simp]:
  "ebind (Inl e) f = Inl e"
  "ebind (Inr x) f = f x"
  by (simp_all add: ebind_def)

lemma those_map_Some: "those (map (\<lambda>x. Some (g x)) xs) = Some (map g xs)"
  by (induction xs) simp_all

lemma those_map2_Some:
  "those (map2 (\<lambda>x y. Some (g x y)) xs ys) = Some (map2 g xs ys)"
proof -
  have "map2 (\<lambda>x y. Some (g x y)) xs ys = map (\<lambda>p. Some (case p of (x, y) \<Rightarrow> g x y)) (zip xs ys)"
    by (simp add: case_prod_beta)
  then show ?thesis
    by (simp only: those_map_Some)
qed

lemma bc_same_length:
  "length xs = length ys \<Longrightarrow> bc (\<lambda>x y. Some (g x y)) xs ys = Some (map2 g xs ys)"
  by (simp add: bc_def those_map2_Some)

lemma bc_singleton_right: "bc f xs [y] = those (map (\<lambda>x. f x y) xs)"
proof (cases xs)
  case Nil
  then show ?thesis by (simp add: bc_def)
next
  case (Cons x xs')
  then show ?thesis by (cases xs') (simp_all add: bc_def)
qed

lemma bc_scalar_right:
  "bc (\<lambda>x y. Some (g x y)) xs [n] = Some (map (\<lambda>x. g x n) xs)"
  by (simp only: bc_singleton_right those_map_Some)

lemma bc_rows_scalar_right:
  "bc (bc (\<lambda>x y. Some (g x y))) m [[n]] = Some (map (map (\<lambda>x. g x n)) m)"
  by (simp only: bc_singleton_right those_map_Some)

lemma of_rows_2: "of_rows 2 m = Arr2 m"
  by (simp add: numeral_2_eq_2)

lemma np_binop_Arr1:
  "length u = length v \<Longrightarrow> np_binop g (Arr1 u) (Arr1 v) = Inr (Arr1 (map2 g u v))"
  by (simp add: np_binop_def bc_singleton_right bc_same_length)

lemma np_binop_scalar_right:
  "np_binop g a (Arr0 n) = Inr (array_map (\<lambda>x. g x n) a)"
  by (cases a) (simp_all add: np_binop_def bc_rows_scalar_right of_rows_2)

lemma shape_array_map: "shape (array_map f a) = shape a"
  by (cases a) (simp_all split: list.splits)

lemma np_idivide_scalar:
  "np_idivide a (Arr0 n) = Inr (array_map (\<lambda>x. fdiv x n) a)"
  by (simp add: np_idivide_def np_true_divide_def np_binop_scalar_right shape_array_map)

lemma foldl_fadd_Fin: "foldl fadd (Fin a) (map Fin xs) = Fin (a + sum_list xs)"
  by (induction xs arbitrary: a) (simp_all add: add.assoc)

lemma fsum_Fin: "fsum (map Fin xs) = Fin (sum_list xs)"
  by (simp add: fsum_def foldl_fadd_Fin)

lemma sum_list_squares_nonneg: "0 \<le> (\<Sum>x\<leftarrow>v. x * x)" for v :: "real list"
  by (induction v) simp_all

lemma sum_list_squares_zero: "(\<Sum>x\<leftarrow>v. x * x) = 0 \<longleftrightarrow> (\<forall>x\<in>set v. x = 0)" for v :: "real list"
proof (induction v)
  case Nil
  then show ?case by simp
next
  case (Cons a v)
  have "a * a + (\<Sum>x\<leftarrow>v. x * x) = 0 \<longleftrightarrow> a * a = 0 \<and> (\<Sum>x\<leftarrow>v. x * x) = 0"
    by (rule add_nonneg_eq_0_iff) (simp_all add: sum_list_squares_nonneg)
  with Cons show ?case by simp
qed

lemma euclidean_norm_Fin:
  "euclidean_norm (Arr1 (map Fin v)) = Fin (sqrt (\<Sum>x\<leftarrow>v. x * x))"
proof -
  have "map (\<lambda>x. fmul x x) (map Fin v) = map Fin (map (\<lambda>x. x * x) v)"
    by simp
  then have "fsum (map (\<lambda>x. fmul x x) (map Fin v)) = Fin (\<Sum>x\<leftarrow>v. x * x)"
    by (simp only: fsum_Fin)
  then show ?thesis
    using sum_list_squares_nonneg [of v] by (simp add: euclidean_norm_def)
qed

lemma overflow_threshold_pos: "0 < overflow_threshold"
proof -
  have "(2::real) ^ 970 < 2 ^ 1024"
    by (rule power_strict_increasing) simp_all
  then show ?thesis
    by (simp add: overflow_threshold_def)
qed

lemma square_sum_bound_below_overflow: "square_sum_bound < overflow_threshold"
proof -
  have "(2::real) ^ 970 < 2 ^ 1023"
    by (rule power_strict_increasing) simp_all
  moreover have "(2::real) ^ 1024 = 2 * 2 ^ 1023"
    by simp
  ultimately show ?thesis
    unfolding overflow_threshold_def square_sum_bound_def by linarith
qed

lemma underflow_below_normal: "underflow_threshold < float_min_normal"
proof -
  have "(2::real) ^ 1022 < 2 ^ 1075"
    by (rule power_strict_increasing) simp_all
  then show ?thesis
    by (simp add: underflow_threshold_def float_min_normal_def frac_less2)
qed

lemma underflow_threshold_pos: "0 < underflow_threshold"
  by (simp add: underflow_threshold_def)

lemma to_float_0 [simp]: "to_float 0 = Fin 0"
  using overflow_threshold_pos underflow_threshold_pos by (simp add: to_float_def)

lemma to_float_in_range:
  assumes "r = 0 \<or> float_min_normal \<le> r" and "r \<le> square_sum_bound"
  shows "to_float r = Fin r"
proof (cases "r = 0")
  case True
  then show ?thesis by simp
next
  case False
  with assms(1) have lo: "float_min_normal \<le> r" by simp
  then have "underflow_threshold < r"
    using underflow_below_normal by simp
  moreover from this have "0 < r"
    using underflow_threshold_pos by simp
  moreover have "r < overflow_threshold"
    using assms(2) square_sum_bound_below_overflow by simp
  ultimately show ?thesis
    using overflow_threshold_pos by (simp add: to_float_def)
qed

lemma foldl_sumsq_in_range:
  assumes "list_all (\<lambda>x. x = 0 \<or> float_min_normal \<le> x * x) v"
    and "a = 0 \<or> float_min_normal \<le> a" and "a + (\<Sum>x\<leftarrow>v. x * x) \<le> square_sum_bound"
  shows "foldl (\<lambda>acc x. stored (fadd acc (stored (fmul x x)))) (Fin a) (map Fin v)
           = Fin (a + (\<Sum>x\<leftarrow>v. x * x))"
  using assms
proof (induction v arbitrary: a)
  case Nil
  then show ?case by simp
next
  case (Cons x v)
  let ?rest = "\<Sum>y\<leftarrow>v. y * y"
  have rest: "0 \<le> ?rest" by (rule sum_list_squares_nonneg)
  have a0: "0 \<le> a"
    using Cons.prems(2) by (auto simp: float_min_normal_def intro: order_trans [of 0 "1 / 2 ^ 1022"])
  have sq: "x * x = 0 \<or> float_min_normal \<le> x * x"
    using Cons.prems(1) by auto
  have "x * x \<le> square_sum_bound"
    using Cons.prems(3) a0 rest by simp
  with sq have s1: "to_float (x * x) = Fin (x * x)"
    by (rule to_float_in_range)
  have lo: "a + x * x = 0 \<or> float_min_normal \<le> a + x * x"
    using Cons.prems(2) sq a0 by (auto simp: add_increasing add_increasing2)
  have "a + x * x \<le> square_sum_bound"
    using Cons.prems(3) rest by simp
  with lo have s2: "to_float (a + x * x) = Fin (a + x * x)"
    by (rule to_float_in_range)
  have "list_all (\<lambda>x. x = 0 \<or> float_min_normal \<le> x * x) v"
    using Cons.prems(1) by simp
  moreover have "a + x * x + ?rest \<le> square_sum_bound"
    using Cons.prems(3) by (simp add: add.assoc)
  ultimately have "foldl (\<lambda>acc x. stored (fadd acc (stored (fmul x x)))) (Fin (a + x * x)) (map Fin v)
           = Fin (a + x * x + ?rest)"
    using lo by (intro Cons.IH)
  then show ?case
    by (simp add: s1 s2 add.assoc)
qed

lemma sumsq_in_range:
  "squares_in_range v \<Longrightarrow> sumsq (map Fin v) = Fin (\<Sum>x\<leftarrow>v. x * x)"
  unfolding sumsq_def squares_in_range_def
  using foldl_sumsq_in_range [of v 0] by simp

lemma norm2_in_range:
  "squares_in_range v \<Longrightarrow> norm2 (map Fin v) = Fin (sqrt (\<Sum>x\<leftarrow>v. x * x))"
  using sum_list_squares_nonneg [of v] by (simp add: norm2_def sumsq_in_range)

lemma float_min_normal_small: "float_min_normal \<le> 1 / 2 ^ 20"
proof -
  have "(2::real) ^ 20 \<le> 2 ^ 1022"
    by (rule power_increasing) simp_all
  then show ?thesis
    by (simp add: float_min_normal_def frac_le)
qed

lemma square_sum_bound_large: "2 ^ 20 \<le> square_sum_bound"
  unfolding square_sum_bound_def by (rule power_increasing) simp_all

lemma squares_in_range_moderate:
  assumes "list_all (\<lambda>x. x = 0 \<or> 1 / 2 ^ 20 \<le> x * x) v" and "(\<Sum>x\<leftarrow>v. x * x) \<le> 2 ^ 20"
  shows "squares_in_range v"
proof -
  have "list_all (\<lambda>x. x = 0 \<or> float_min_normal \<le> x * x) v"
    using assms(1) float_min_normal_small
    by (auto simp: list_all_iff intro: order_trans)
  moreover have "(\<Sum>x\<leftarrow>v. x * x) \<le> square_sum_bound"
    using assms(2) square_sum_bound_large by (rule order_trans)
  ultimately show ?thesis
    by (simp add: squares_in_range_def)
qed

lemma to_float_overflow: "to_float (2 ^ 700 * 2 ^ 700) = PInf"
proof -
  have "(2::real) ^ 1024 \<le> 2 ^ 1400"
    by (rule power_increasing) simp_all
  then have "overflow_threshold \<le> 2 ^ 700 * 2 ^ 700"
    by (simp add: overflow_threshold_def flip: power_add)
  then show ?thesis
    by (simp add: to_float_def)
qed

lemma one_below_overflow: "1 < overflow_threshold"
proof -
  have "(2::real) ^ 970 \<le> 2 ^ 1023"
    by (rule power_increasing) simp_all
  moreover have "(1::real) < 2 ^ 1023"
    by (rule one_less_power) simp_all
  moreover have "(2::real) ^ 1024 = 2 * 2 ^ 1023"
    by simp
  ultimately show ?thesis
    unfolding overflow_threshold_def by linarith
qed

lemma to_float_underflow: "to_float (1 / 2 ^ 700 * (1 / 2 ^ 700)) = Fin 0"
proof -
  have "(2::real) ^ 1075 \<le> 2 ^ 1400"
    by (rule power_increasing) simp_all
  then have "(1::real) / 2 ^ 700 * (1 / 2 ^ 700) \<le> underflow_threshold"
    by (simp add: underflow_threshold_def frac_le flip: power_add)
  moreover have "(1::real) / 2 ^ 700 * (1 / 2 ^ 700) \<le> 1"
    by (simp add: flip: power_add)
  then have "\<not> overflow_threshold \<le> 1 / 2 ^ 700 * (1 / 2 ^ 700)"
    using one_below_overflow by simp
  ultimately show ?thesis
    using overflow_threshold_pos by (simp add: to_float_def)
qed

lemma example_squares:
  "to_float (example_huge * example_huge) = PInf"
  "to_float (example_tiny * example_tiny) = Fin 0"
  "0 < example_tiny"
  unfolding example_huge_def example_tiny_def
  by (rule to_float_overflow, rule to_float_underflow, simp)

lemma to_float_1: "to_float 1 = Fin 1"
proof -
  have "float_min_normal \<le> 1"
    using float_min_normal_small by (rule order_trans) simp
  moreover have "1 \<le> square_sum_bound"
    using square_sum_bound_large by (rule order_trans [rotated]) simp
  ultimately show ?thesis
    by (intro to_float_in_range) simp_all
qed

lemma sum_list_scaled_squares:
  "(\<Sum>x\<leftarrow>map (\<lambda>x. x / n) v. x * x) = (\<Sum>x\<leftarrow>v. x * x) / (n * n)" for v :: "real list"
  by (induction v) (simp_all add: add_divide_distrib)

lemma map_fdiv_Fin:
  "n \<noteq> 0 \<Longrightarrow> map (\<lambda>x. fdiv x (Fin n)) (map Fin v) = map Fin (map (\<lambda>x. x / n) v)"
  by simp

text \<open>
  Dividing a vector by its norm, where the squares are in range and the vector is not zero:
  numpy's norm is the exact one, and the quotient has Euclidean norm 1.
\<close>

lemma normalized_unit_norm:
  fixes v :: "real list"
  assumes "\<exists>x\<in>set v. x \<noteq> 0" and "squares_in_range v"
  shows "map (\<lambda>x. fdiv x (norm2 (map Fin v))) (map Fin v)
           = map Fin (map (\<lambda>x. x / sqrt (\<Sum>y\<leftarrow>v. y * y)) v)"
    and "euclidean_norm (Arr1 (map Fin (map (\<lambda>x. x / sqrt (\<Sum>y\<leftarrow>v. y * y)) v))) = Fin 1"
proof -
  let ?S = "\<Sum>x\<leftarrow>v. x * x"
  have pos: "0 < ?S"
    using assms(1) sum_list_squares_nonneg [of v] sum_list_squares_zero [of v]
    by (auto simp: less_le)
  then have n0: "sqrt ?S \<noteq> 0" by simp
  have "map (\<lambda>x. fdiv x (Fin (sqrt ?S))) (map Fin v) = map Fin (map (\<lambda>x. x / sqrt ?S) v)"
    using n0 by (rule map_fdiv_Fin)
  then show "map (\<lambda>x. fdiv x (norm2 (map Fin v))) (map Fin v)
               = map Fin (map (\<lambda>x. x / sqrt ?S) v)"
    by (simp only: norm2_in_range [OF assms(2)])
  have e2: "(\<Sum>x\<leftarrow>map (\<lambda>x. x / sqrt ?S) v. x * x) = 1"
  proof -
    have "(\<Sum>x\<leftarrow>map (\<lambda>x. x / sqrt ?S) v. x * x) = ?S / (sqrt ?S * sqrt ?S)"
      by (rule sum_list_scaled_squares)
    also have "\<dots> = 1"
      using pos by simp
    finally show ?thesis .
  qed
  have "euclidean_norm (Arr1 (map Fin (map (\<lambda>x. x / sqrt ?S) v)))
          = Fin (sqrt (\<Sum>x\<leftarrow>map (\<lambda>x. x / sqrt ?S) v. x * x))"
    by (rule euclidean_norm_Fin)
  also have "\<dots> = Fin 1"
    by (simp only: e2 real_sqrt_one)
  finally show "euclidean_norm (Arr1 (map Fin (map (\<lambda>x. x / sqrt ?S) v))) = Fin 1" .
qed

lemma bc_singleton_left: "bc f [x] ys = those (map (f x) ys)"
proof (cases ys)
  case Nil
  then show ?thesis by (simp add: bc_def)
next
  case (Cons y ys')
  then show ?thesis by (cases ys') (simp_all add: bc_def)
qed

lemma bc_rows_scalar_left:
  "bc (bc (\<lambda>x y. Some (g x y))) [[c]] m = Some (map (map (g c)) m)"
proof -
  have "bc (bc (\<lambda>x y. Some (g x y))) [[c]] m
          = those (map (\<lambda>r. bc (\<lambda>x y. Some (g x y)) [c] r) m)"
    by (rule bc_singleton_left)
  also have "\<dots> = those (map (\<lambda>r. Some (map (g c) r)) m)"
    by (simp only: bc_singleton_left those_map_Some)
  finally show ?thesis
    by (simp only: those_map_Some)
qed

lemma np_binop_scalar_left:
  "np_binop g (Arr0 c) a = Inr (array_map (g c) a)"
  by (cases a) (simp_all add: np_binop_def bc_rows_scalar_left of_rows_2)

lemma map2_fsub_Fin:
  "map2 fsub (map Fin s) (map Fin p) = map Fin (map2 (-) s p)"
proof (induction s arbitrary: p)
  case Nil
  then show ?case by simp
next
  case (Cons a s)
  then show ?case by (cases p) (simp_all add: fsub_def)
qed

lemma differ_nonzero_entry:
  fixes s p :: "real list"
  assumes "length s = length p" and "s \<noteq> p"
  shows "\<exists>x\<in>set (map2 (-) s p). x \<noteq> 0"
  using assms by (induction s p rule: list_induct2) auto

lemma np_dot_matrix_vector:
  assumes "R \<noteq> []" and "list_all (\<lambda>row. length row = length s) R"
  shows "np_dot (Arr2 R) (Arr1 s) = Inr (Arr1 (mat_vec R s))"
proof -
  from assms obtain r0 R' where R: "R = r0 # R'" and r0: "length r0 = length s"
    by (cases R) auto
  show ?thesis
    unfolding R using r0 by (simp add: mat_vec_def inner_def)
qed

lemma props_of_attrs:
  assumes "attr_motion_params self = Some mp" and "attr_detector self = Some det"
  shows "motion_params_prop self = Inr mp"
    and "detector_prop self = Inr det"
    and "det_params_prop self = Inr (params det)"
  using assms by (simp_all add: motion_params_prop_def detector_prop_def det_params_prop_def)

lemma det_to_src_in_domain:
  assumes "attr_motion_params self = Some mp" and "attr_detector self = Some det"
    and "contains mp mpar" and "contains (params det) dpar"
  shows "DivergentBeamGeometry_det_to_src cls self mpar dpar normalized =
     ebind (src_position cls mpar) (\<lambda>src.
     ebind (Geometry_det_point_position cls self mpar dpar) (\<lambda>pos.
     ebind (np_subtract src pos) (\<lambda>vec.
       if normalized
       then ebind (np_linalg_norm_last vec) (\<lambda>n. np_idivide vec n)
       else Inr vec)))"
  using assms(3,4)
  by (simp add: DivergentBeamGeometry_det_to_src_def props_of_attrs [OF assms(1,2)])

lemma det_to_src_vectors:
  assumes "attr_motion_params self = Some mp" and "attr_detector self = Some det"
    and "contains mp mpar" and "contains (params det) dpar"
    and "src_position cls mpar = Inr (Arr1 s)"
    and "Geometry_det_point_position cls self mpar dpar = Inr (Arr1 p)"
    and "length s = length p"
  shows "DivergentBeamGeometry_det_to_src cls self mpar dpar normalized =
     Inr (Arr1 (if normalized
                then map (\<lambda>x. fdiv x (norm2 (map2 fsub s p))) (map2 fsub s p)
                else map2 fsub s p))"
  using assms(5,6,7)
  by (simp add: det_to_src_in_domain [OF assms(1-4)] np_subtract_def np_binop_Arr1
        np_idivide_scalar)

lemma init_result:
  "AxisOrientedGeometry_init self axis =
     (if shape axis = [3] then Inr ()
      else Inl (ValueError ''axis {!r} not a 3 element array-like''),
      self\<lparr>attr_axis := Some (array_map (\<lambda>x. fdiv x (np_linalg_norm axis)) axis)\<rparr>)"
  by (simp add: AxisOrientedGeometry_init_def np_true_divide_def np_binop_scalar_right
        shape_array_map)

lemma shape_3_cases:
  assumes "shape ax = [3]"
  obtains x y z where "ax = Arr1 [x, y, z]"
proof -
  from assms obtain v where v: "ax = Arr1 v" "length v = 3"
    by (cases ax) simp_all
  then obtain x y z where "v = [x, y, z]"
    by (cases v; cases "tl v"; cases "tl (tl v)") auto
  with v that show ?thesis by blast
qed

lemma unit_axis_finite:
  assumes "euclidean_norm (Arr1 [x, y, z]) = Fin 1"
  shows "\<exists>a0 a1 a2. x = Fin a0 \<and> y = Fin a1 \<and> z = Fin a2 \<and> a0 * a0 + a1 * a1 + a2 * a2 = 1"
  using assms
  by (cases x; cases y; cases z)
     (simp_all add: euclidean_norm_def fsum_def split: if_splits)

lemma rotation_matrix_entries:
  assumes "attr_axis self = Some (Arr1 [a0, a1, a2])" and "contains mp angle"
  shows "AxisOrientedGeometry_rotation_matrix self mp angle =
     Inr (Arr2
       [[fadd (fadd (fmul (Fin (cos angle)) (Fin 1)) (fmul (Fin (1 - cos angle)) (fmul a0 a0)))
              (fmul (Fin (sin angle)) (Fin 0)),
         fadd (fadd (fmul (Fin (cos angle)) (Fin 0)) (fmul (Fin (1 - cos angle)) (fmul a0 a1)))
              (fmul (Fin (sin angle)) (fneg a2)),
         fadd (fadd (fmul (Fin (cos angle)) (Fin 0)) (fmul (Fin (1 - cos angle)) (fmul a0 a2)))
              (fmul (Fin (sin angle)) a1)],
        [fadd (fadd (fmul (Fin (cos angle)) (Fin 0)) (fmul (Fin (1 - cos angle)) (fmul a1 a0)))
              (fmul (Fin (sin angle)) a2),
         fadd (fadd (fmul (Fin (cos angle)) (Fin 1)) (fmul (Fin (1 - cos angle)) (fmul a1 a1)))
              (fmul (Fin (sin angle)) (Fin 0)),
         fadd (fadd (fmul (Fin (cos angle)) (Fin 0)) (fmul (Fin (1 - cos angle)) (fmul a1 a2)))
              (fmul (Fin (sin angle)) (fneg a0))],
        [fadd (fadd (fmul (Fin (cos angle)) (Fin 0)) (fmul (Fin (1 - cos angle)) (fmul a2 a0)))
              (fmul (Fin (sin angle)) (fneg a1)),
         fadd (fadd (fmul (Fin (cos angle)) (Fin 0)) (fmul (Fin (1 - cos angle)) (fmul a2 a1)))
              (fmul (Fin (sin angle)) a0),
         fadd (fadd (fmul (Fin (cos angle)) (Fin 1)) (fmul (Fin (1 - cos angle)) (fmul a2 a2)))
              (fmul (Fin (sin angle)) (Fin 0))]])"
  using assms
  apply (simp add: AxisOrientedGeometry_rotation_matrix_def axis_prop_def Let_def np_outer_def np_eye_def
      np_multiply_def np_add_def upt_rec)
  apply (simp add: np_binop_def bc_def)
  done

lemma rodrigues_formula_entries:
  "rodrigues_formula [a0, a1, a2] angle =
     Arr2
       [[fadd (fadd (fmul (Fin (cos angle)) (Fin 1)) (fmul (Fin (1 - cos angle)) (fmul a0 a0)))
              (fmul (Fin (sin angle)) (Fin 0)),
         fadd (fadd (fmul (Fin (cos angle)) (Fin 0)) (fmul (Fin (1 - cos angle)) (fmul a0 a1)))
              (fmul (Fin (sin angle)) (fneg a2)),
         fadd (fadd (fmul (Fin (cos angle)) (Fin 0)) (fmul (Fin (1 - cos angle)) (fmul a0 a2)))
              (fmul (Fin (sin angle)) a1)],
        [fadd (fadd (fmul (Fin (cos angle)) (Fin 0)) (fmul (Fin (1 - cos angle)) (fmul a1 a0)))
              (fmul (Fin (sin angle)) a2),
         fadd (fadd (fmul (Fin (cos angle)) (Fin 1)) (fmul (Fin (1 - cos angle)) (fmul a1 a1)))
              (fmul (Fin (sin angle)) (Fin 0)),
         fadd (fadd (fmul (Fin (cos angle)) (Fin 0)) (fmul (Fin (1 - cos angle)) (fmul a1 a2)))
              (fmul (Fin (sin angle)) (fneg a0))],
        [fadd (fadd (fmul (Fin (cos angle)) (Fin 0)) (fmul (Fin (1 - cos angle)) (fmul a2 a0)))
              (fmul (Fin (sin angle)) (fneg a1)),
         fadd (fadd (fmul (Fin (cos angle)) (Fin 0)) (fmul (Fin (1 - cos angle)) (fmul a2 a1)))
              (fmul (Fin (sin angle)) a0),
         fadd (fadd (fmul (Fin (cos angle)) (Fin 1)) (fmul (Fin (1 - cos angle)) (fmul a2 a2)))
              (fmul (Fin (sin angle)) (Fin 0))]]"
  by (simp add: rodrigues_formula_def rodrigues_entry_def identity_entry_def outer_entry_def
        cross_product_matrix_def)

lemma proper_rotation_entries:
  "proper_rotation (Arr2 [[Fin r00, Fin r01, Fin r02],
                          [Fin r10, Fin r11, Fin r12],
                          [Fin r20, Fin r21, Fin r22]]) \<longleftrightarrow>
     r00 * r00 + r10 * r10 + r20 * r20 = 1 \<and>
     r00 * r01 + r10 * r11 + r20 * r21 = 0 \<and>
     r00 * r02 + r10 * r12 + r20 * r22 = 0 \<and>
     r01 * r00 + r11 * r10 + r21 * r20 = 0 \<and>
     r01 * r01 + r11 * r11 + r21 * r21 = 1 \<and>
     r01 * r02 + r11 * r12 + r21 * r22 = 0 \<and>
     r02 * r00 + r12 * r10 + r22 * r20 = 0 \<and>
     r02 * r01 + r12 * r11 + r22 * r21 = 0 \<and>
     r02 * r02 + r12 * r12 + r22 * r22 = 1 \<and>
     r00 * (r11 * r22 - r12 * r21) - r01 * (r10 * r22 - r12 * r20)
       + r02 * (r10 * r21 - r11 * r20) = 1"
  by (simp add: proper_rotation_def np_eye_def upt_rec inner_def fsum_def fsub_def
        transpose.simps)

lemma rodrigues_real_proper:
  fixes a0 a1 a2 c s :: real
  assumes u: "a0 * a0 + a1 * a1 + a2 * a2 = 1" and t: "s * s + c * c = 1"
  defines "r00 \<equiv> c + (1 - c) * (a0 * a0)"
    and "r01 \<equiv> (1 - c) * (a0 * a1) - s * a2"
    and "r02 \<equiv> (1 - c) * (a0 * a2) + s * a1"
    and "r10 \<equiv> (1 - c) * (a1 * a0) + s * a2"
    and "r11 \<equiv> c + (1 - c) * (a1 * a1)"
    and "r12 \<equiv> (1 - c) * (a1 * a2) - s * a0"
    and "r20 \<equiv> (1 - c) * (a2 * a0) - s * a1"
    and "r21 \<equiv> (1 - c) * (a2 * a1) + s * a0"
    and "r22 \<equiv> c + (1 - c) * (a2 * a2)"
  shows "r00 * r00 + r10 * r10 + r20 * r20 = 1"
    and "r00 * r01 + r10 * r11 + r20 * r21 = 0"
    and "r00 * r02 + r10 * r12 + r20 * r22 = 0"
    and "r01 * r00 + r11 * r10 + r21 * r20 = 0"
    and "r01 * r01 + r11 * r11 + r21 * r21 = 1"
    and "r01 * r02 + r11 * r12 + r21 * r22 = 0"
    and "r02 * r00 + r12 * r10 + r22 * r20 = 0"
    and "r02 * r01 + r12 * r11 + r22 * r21 = 0"
    and "r02 * r02 + r12 * r12 + r22 * r22 = 1"
    and "r00 * (r11 * r22 - r12 * r21) - r01 * (r10 * r22 - r12 * r20)
           + r02 * (r10 * r21 - r11 * r20) = 1"
  unfolding r00_def r01_def r02_def r10_def r11_def r12_def r20_def r21_def r22_def
  using u t by algebra+

lemma example_self_attrs:
  "attr_motion_params example_self = Some example_interval"
  "attr_detector example_self = Some example_detector"
  by (simp_all add: example_self_def DivergentBeamGeometry_init_def example_interval_def
        Geometry_init_def)

lemma example_domains:
  "contains example_interval 0" "contains (params example_detector) 0"
  "\<not> contains example_interval 2" "\<not> contains (params example_detector) 2"
  by (simp_all add: example_interval_def example_detector_def)

lemma example_norms:
  "norm2 [Fin 0, Fin 0, Fin 2] = Fin 2"
  "norm2 [Fin (- 2), Fin 0, Fin 0] = Fin 2"
proof -
  have "squares_in_range [0, 0, 2]" "squares_in_range [- 2, 0, 0]"
    by (rule squares_in_range_moderate; simp)+
  from this [THEN norm2_in_range]
  show "norm2 [Fin 0, Fin 0, Fin 2] = Fin 2" "norm2 [Fin (- 2), Fin 0, Fin 0] = Fin 2"
    by simp_all
qed

lemma example_axis: "attr_axis example_axis_self = Some (Arr1 [Fin 0, Fin 0, Fin 1])"
  by (simp add: example_axis_self_def init_result np_linalg_norm_def example_norms)

lemma example_axis_init:
  "AxisOrientedGeometry_init \<lparr>attr_axis = None\<rparr> (Arr1 [Fin 0, Fin 0, Fin 2])
     = (Inr (), example_axis_self)"
  by (simp add: example_axis_self_def init_result)

lemma example_rotation_at_0:
  "rotation_matrix example_class 0 =
     Inr (Arr2 [[Fin 1, Fin 0, Fin 0], [Fin 0, Fin 1, Fin 0], [Fin 0, Fin 0, Fin 1]])"
proof -
  have "contains example_interval 0"
    by (simp add: example_interval_def)
  from rotation_matrix_entries [OF example_axis this] show ?thesis
    by (simp add: example_class_def)
qed

lemma example_point_at_0:
  "Geometry_det_point_position example_class example_self 0 d = Inr (Arr1 [Fin 1, Fin d, Fin 0])"
proof -
  have "det_refpoint example_class 0 = Inr (Arr1 [Fin 1, Fin 0, Fin 0])"
    by (simp add: example_class_def)
  moreover have "surface example_detector d = Inr (Arr1 [Fin 0, Fin d, Fin 0])"
    by (simp add: example_detector_def)
  ultimately show ?thesis
    by (simp add: Geometry_det_point_position_def example_rotation_at_0
          props_of_attrs [OF example_self_attrs] inner_def fsum_def np_add_def np_binop_Arr1)
qed

lemma example_src_at_0: "src_position example_class 0 = Inr (Arr1 [Fin (- 1), Fin 0, Fin 0])"
  by (simp add: example_class_def)

lemma coincident_point_at_0:
  "Geometry_det_point_position coincident_class example_self 0 d
     = Inr (Arr1 [Fin 1, Fin d, Fin 0])"
proof -
  have "Geometry_det_point_position coincident_class example_self 0 d
          = Geometry_det_point_position example_class example_self 0 d"
    by (simp add: Geometry_det_point_position_def coincident_class_def)
  then show ?thesis
    by (simp only: example_point_at_0)
qed

lemma batched_self_attrs:
  "attr_motion_params batched_self = Some batched_interval"
  "attr_detector batched_self = Some example_detector"
  by (simp_all add: batched_self_def DivergentBeamGeometry_init_def batched_interval_def
        Geometry_init_def)

lemma batched_point:
  "Geometry_det_point_position batched_class batched_self [0, 1] 0
     = Inr (Arr2 [[Fin 1, Fin 0, Fin 0], [Fin (cos 1), Fin (sin 1), Fin 0]])"
  by (simp add: Geometry_det_point_position_def batched_class_def
        props_of_attrs [OF batched_self_attrs] example_detector_def np_eye_def upt_rec
        inner_def fsum_def np_add_def np_binop_def bc_def)

text \<open>
  For an array of two angles in three dimensions the difference has shape \<^verbatim>\<open>(2, 3)\<close> and its
  trailing-axis norms have shape \<^verbatim>\<open>(2,)\<close>. The two do not broadcast, so the normalising
  call raises, while the call without normalisation returns one row for each angle.
\<close>

lemma det_to_src_batch_of_two:
  "contains batched_interval [0, 1] \<and> contains (params example_detector) 0
   \<and> DivergentBeamGeometry_det_to_src batched_class batched_self [0, 1] 0 False
       = Inr (Arr2 [[Fin (- 2), Fin 0, Fin 0],
                    [Fin (- cos 1 - cos 1), Fin (- sin 1 - sin 1), Fin 0]])
   \<and> DivergentBeamGeometry_det_to_src batched_class batched_self [0, 1] 0 True
       = Inl (ValueError ''operands could not be broadcast together'')"
proof -
  have dom: "contains batched_interval [0, 1]" "contains (params example_detector) 0"
    by (simp_all add: batched_interval_def example_detector_def example_interval_def)
  have src: "src_position batched_class [0, 1]
               = Inr (Arr2 [[Fin (- 1), Fin 0, Fin 0], [Fin (- cos 1), Fin (- sin 1), Fin 0]])"
    by (simp add: batched_class_def)
  have vec: "np_subtract (Arr2 [[Fin (- 1), Fin 0, Fin 0], [Fin (- cos 1), Fin (- sin 1), Fin 0]])
               (Arr2 [[Fin 1, Fin 0, Fin 0], [Fin (cos 1), Fin (sin 1), Fin 0]])
             = Inr (Arr2 [[Fin (- 2), Fin 0, Fin 0],
                          [Fin (- cos 1 - cos 1), Fin (- sin 1 - sin 1), Fin 0]])"
    by (simp add: np_subtract_def np_binop_def bc_def fsub_def)
  have div: "np_idivide (Arr2 [[a, b, c], [d, e, f]]) (Arr1 [n1, n2])
               = Inl (ValueError ''operands could not be broadcast together'')" for a b c d e f n1 n2
    by (simp add: np_idivide_def np_true_divide_def np_binop_def bc_def)
  show ?thesis
    using dom
    by (simp add: det_to_src_in_domain [OF batched_self_attrs dom] src batched_point vec div)
qed

subsection \<open>The base class\<close>

text \<open>
  C9. \<^verbatim>\<open>det_to_src\<close> of the base class \<^verbatim>\<open>Geometry\<close> raises \<^verbatim>\<open>NotImplementedError\<close> for
  every motion parameter, detector parameter and value of \<^verbatim>\<open>normalized\<close>; it never
  returns a value.
\<close>

theorem Geometry_det_to_src_unsupported:
  "Geometry_det_to_src self mpar dpar normalized = Inl NotImplementedError"
  by (simp add: Geometry_det_to_src_def)

text \<open>
  The joined grid. Without a motion grid the property raises before it reaches \<^verbatim>\<open>append\<close>:
  the first test is false and the other branch reads \<^verbatim>\<open>None.coord_vectors\<close>. That is the case
  of the base class, whose \<^verbatim>\<open>motion_grid\<close> is always \<^verbatim>\<open>None\<close>. With a motion grid the
  result is whatever \<^verbatim>\<open>append\<close> makes of the detector grid, absent or not.
\<close>

lemma Geometry_grid_without_motion_grid:
  "Geometry_grid append_op None det_grid
     = Inl (AttributeError ''NoneType object has no attribute coord_vectors'')"
  "Geometry_grid append_op (Geometry_motion_grid self) det_grid
     = Inl (AttributeError ''NoneType object has no attribute coord_vectors'')"
  by (simp_all add: Geometry_grid_def Geometry_motion_grid_def)

lemma Geometry_grid_with_motion_grid:
  "Geometry_grid append_op (Some g) det_grid
     = append_op (if isinstance_RegularGrid (Some g) \<and> isinstance_RegularGrid det_grid
               then g else TensorGrid (coord_vectors g))
         det_grid"
  by (simp add: Geometry_grid_def)

subsection \<open>The constructor of DivergentBeamGeometry\<close>

text \<open>
  C5. The constructor raises an invalid-argument exception exactly when the angle domain is
  not a one-dimensional \<^verbatim>\<open>IntervalProd\<close>, or a grid is supplied that is not a
  \<^verbatim>\<open>TensorGrid\<close>, or a grid is supplied that the angle domain does not contain; otherwise
  it returns. The first two failures are a \<^verbatim>\<open>TypeError\<close>, the third a \<^verbatim>\<open>ValueError\<close>.
\<close>

theorem DivergentBeamGeometry_init_fails_iff:
  "((\<exists>e. fst (DivergentBeamGeometry_init self ndim angle_intvl detector agrid) = Inl e
          \<and> invalid_argument e)
      \<longleftrightarrow> (\<not> isinstance_IntervalProd_1d angle_intvl
           \<or> agrid = NotGrid
           \<or> (\<exists>ip g. angle_intvl = IntervalProdObj ip \<and> agrid = GridObj g
                 \<and> \<not> contains_set ip g)))
   \<and> (fst (DivergentBeamGeometry_init self ndim angle_intvl detector agrid) = Inr ()
      \<longleftrightarrow> \<not> (\<not> isinstance_IntervalProd_1d angle_intvl
           \<or> agrid = NotGrid
           \<or> (\<exists>ip g. angle_intvl = IntervalProdObj ip \<and> agrid = GridObj g
                 \<and> \<not> contains_set ip g)))
   \<and> (\<not> isinstance_IntervalProd_1d angle_intvl
        \<or> (isinstance_IntervalProd_1d angle_intvl \<and> agrid = NotGrid)
      \<longrightarrow> (\<exists>msg. fst (DivergentBeamGeometry_init self ndim angle_intvl detector agrid)
                   = Inl (TypeError msg)))
   \<and> (isinstance_IntervalProd_1d angle_intvl
        \<and> (\<exists>ip g. angle_intvl = IntervalProdObj ip \<and> agrid = GridObj g
                 \<and> \<not> contains_set ip g)
      \<longrightarrow> (\<exists>msg. fst (DivergentBeamGeometry_init self ndim angle_intvl detector agrid)
                   = Inl (ValueError msg)))"
  by (cases angle_intvl; cases agrid)
     (auto simp: DivergentBeamGeometry_init_def isinstance_IntervalProd_1d_def Let_def)

theorem DivergentBeamGeometry_init_fails_iff_witness:
  "(\<exists>e. fst (DivergentBeamGeometry_init (new_object :: (real, real) geometry_self) 2
             (IntervalProdObj example_interval) example_detector
             (GridObj (TensorGrid [[0, 2]]))) = Inl e \<and> invalid_argument e)
   \<and> fst (DivergentBeamGeometry_init (new_object :: (real, real) geometry_self) 2
             (IntervalProdObj example_interval) example_detector
             (GridObj (TensorGrid [[0, 1]]))) = Inr ()"
  using DivergentBeamGeometry_init_fails_iff
          [of "new_object :: (real, real) geometry_self" 2 "IntervalProdObj example_interval"
              example_detector "GridObj (TensorGrid [[0, 2]])"]
        DivergentBeamGeometry_init_fails_iff
          [of "new_object :: (real, real) geometry_self" 2 "IntervalProdObj example_interval"
              example_detector "GridObj (TensorGrid [[0, 1]])"]
  by (simp add: isinstance_IntervalProd_1d_def example_interval_def)

text \<open>
  C6, as the specification states it, does not hold: when the grid is rejected, the
  attributes \<^verbatim>\<open>_motion_params\<close>, \<^verbatim>\<open>_motion_grid\<close> and \<^verbatim>\<open>_detector\<close> have been assigned
  already. Here the grid is not a \<^verbatim>\<open>TensorGrid\<close>.
\<close>

theorem DivergentBeamGeometry_init_partial_mutation:
  "fst (DivergentBeamGeometry_init (new_object :: (real, real) geometry_self) 2
          (IntervalProdObj example_interval) example_detector NotGrid)
     = Inl (TypeError ''angle grid {!r} is not a `TensorGrid` instance.'')
   \<and> attr_motion_params (snd (DivergentBeamGeometry_init
          (new_object :: (real, real) geometry_self) 2
          (IntervalProdObj example_interval) example_detector NotGrid))
     = Some example_interval
   \<and> attr_motion_params (new_object :: (real, real) geometry_self) = None"
  by (simp add: DivergentBeamGeometry_init_def example_interval_def new_object_def)

text \<open>
  C6, amended. When the constructor raises for the angle domain, the object is untouched.
  When it raises for the grid, exactly \<^verbatim>\<open>_motion_params\<close>, \<^verbatim>\<open>_motion_grid\<close> and
  \<^verbatim>\<open>_detector\<close> have been assigned; \<^verbatim>\<open>_ndim\<close> and \<^verbatim>\<open>_implementation_cache\<close> have not.
\<close>

theorem DivergentBeamGeometry_init_state_at_failure:
  assumes "fst (DivergentBeamGeometry_init self ndim angle_intvl detector agrid) = Inl e"
  shows "(\<not> isinstance_IntervalProd_1d angle_intvl
            \<and> snd (DivergentBeamGeometry_init self ndim angle_intvl detector agrid) = self)
         \<or> (\<exists>ip. angle_intvl = IntervalProdObj ip \<and> ip_ndim ip = 1
               \<and> snd (DivergentBeamGeometry_init self ndim angle_intvl detector agrid)
                   = self\<lparr>attr_motion_params := Some ip, attr_motion_grid := Some agrid,
                          attr_detector := Some detector\<rparr>)"
  using assms
  by (cases angle_intvl; cases agrid)
     (auto simp: DivergentBeamGeometry_init_def isinstance_IntervalProd_1d_def Let_def
           split: if_splits)

theorem DivergentBeamGeometry_init_state_at_failure_witness:
  "snd (DivergentBeamGeometry_init (new_object :: (real, real) geometry_self) 2
          NotIntervalProd example_detector PyNone) = new_object
   \<and> attr_ndim (snd (DivergentBeamGeometry_init (new_object :: (real, real) geometry_self) 2
          (IntervalProdObj example_interval) example_detector NotGrid)) = None"
  using DivergentBeamGeometry_init_state_at_failure
          [of "new_object :: (real, real) geometry_self" 2 NotIntervalProd example_detector
              PyNone "TypeError ''angle parameters {!r} are not an interval.''"]
        DivergentBeamGeometry_init_state_at_failure
          [of "new_object :: (real, real) geometry_self" 2 "IntervalProdObj example_interval"
              example_detector NotGrid
              "TypeError ''angle grid {!r} is not a `TensorGrid` instance.''"]
  by (simp add: DivergentBeamGeometry_init_def isinstance_IntervalProd_1d_def
        example_interval_def new_object_def)

subsection \<open>The detector point position\<close>

text \<open>
  C8, as the specification states it, does not hold: \<^verbatim>\<open>det_point_position\<close> calls
  \<^verbatim>\<open>rotation_matrix\<close>, and the \<^verbatim>\<open>rotation_matrix\<close> of \<^verbatim>\<open>AxisOrientedGeometry\<close> checks its
  angle against \<^verbatim>\<open>motion_params\<close>. For the angle 2, outside \<open>[0, 1]\<close>, the call fails
  with that domain error.
\<close>

theorem Geometry_det_point_position_propagates_domain_failure:
  "\<not> contains example_interval 2
   \<and> Geometry_det_point_position example_class example_self 2 0
       = Inl (ValueError ''angle {} is not in the valid range {}.'')"
  by (simp add: Geometry_det_point_position_def example_class_def example_interval_def
        AxisOrientedGeometry_rotation_matrix_def)

text \<open>
  C8, amended. For every motion parameter and detector parameter, inside its domain or not,
  at which \<^verbatim>\<open>det_refpoint\<close>, \<^verbatim>\<open>rotation_matrix\<close> and \<^verbatim>\<open>detector.surface\<close> return a vector, a
  matrix and a vector of matching sizes, \<^verbatim>\<open>det_point_position\<close> returns the reference point
  plus the matrix applied to the surface point, entry by entry. It has no check of its own:
  when it fails, one of the three operations, the detector access or the array arithmetic
  has failed, and the failure is theirs.
\<close>

theorem Geometry_det_point_position_formula:
  "(\<forall>r R s det.
       det_refpoint cls mpar = Inr (Arr1 r) \<and> rotation_matrix cls mpar = Inr (Arr2 R)
       \<and> attr_detector self = Some det \<and> surface det dpar = Inr (Arr1 s)
       \<and> R \<noteq> [] \<and> list_all (\<lambda>row. length row = length s) R \<and> length R = length r
       \<longrightarrow> Geometry_det_point_position cls self mpar dpar
             = Inr (Arr1 (map (\<lambda>(x, y). fadd x y) (zip r (mat_vec R s)))))
   \<and> (\<forall>e. Geometry_det_point_position cls self mpar dpar = Inl e
       \<longrightarrow> det_refpoint cls mpar = Inl e
           \<or> rotation_matrix cls mpar = Inl e
           \<or> detector_prop self = Inl e
           \<or> (\<exists>det. attr_detector self = Some det \<and> surface det dpar = Inl e)
           \<or> (\<exists>refpoint rot det surf.
                 det_refpoint cls mpar = Inr refpoint \<and> rotation_matrix cls mpar = Inr rot
                 \<and> attr_detector self = Some det \<and> surface det dpar = Inr surf
                 \<and> ebind (np_dot rot surf) (\<lambda>rotated. np_add refpoint rotated) = Inl e))"
proof (intro conjI allI impI)
  fix r R s det
  assume a: "det_refpoint cls mpar = Inr (Arr1 r) \<and> rotation_matrix cls mpar = Inr (Arr2 R)
       \<and> attr_detector self = Some det \<and> surface det dpar = Inr (Arr1 s)
       \<and> R \<noteq> [] \<and> list_all (\<lambda>row. length row = length s) R \<and> length R = length r"
  then have dot: "np_dot (Arr2 R) (Arr1 s) = Inr (Arr1 (mat_vec R s))"
    by (intro np_dot_matrix_vector) simp_all
  have len: "length r = length (mat_vec R s)"
    using a by (simp add: mat_vec_def)
  have "Geometry_det_point_position cls self mpar dpar
          = ebind (np_dot (Arr2 R) (Arr1 s)) (\<lambda>rotated. np_add (Arr1 r) rotated)"
    using a by (simp add: Geometry_det_point_position_def detector_prop_def del: np_dot.simps)
  also have "\<dots> = np_add (Arr1 r) (Arr1 (mat_vec R s))"
    by (simp only: dot ebind_simps)
  also have "\<dots> = Inr (Arr1 (map2 fadd r (mat_vec R s)))"
    unfolding np_add_def using len by (rule np_binop_Arr1)
  finally show "Geometry_det_point_position cls self mpar dpar
                  = Inr (Arr1 (map (\<lambda>(x, y). fadd x y) (zip r (mat_vec R s))))" .
next
  fix e
  assume failed: "Geometry_det_point_position cls self mpar dpar = Inl e"
  show "det_refpoint cls mpar = Inl e
           \<or> rotation_matrix cls mpar = Inl e
           \<or> detector_prop self = Inl e
           \<or> (\<exists>det. attr_detector self = Some det \<and> surface det dpar = Inl e)
           \<or> (\<exists>refpoint rot det surf.
                 det_refpoint cls mpar = Inr refpoint \<and> rotation_matrix cls mpar = Inr rot
                 \<and> attr_detector self = Some det \<and> surface det dpar = Inr surf
                 \<and> ebind (np_dot rot surf) (\<lambda>rotated. np_add refpoint rotated) = Inl e)"
  proof (cases "det_refpoint cls mpar")
    case (Inl e1)
    with failed show ?thesis
      by (simp add: Geometry_det_point_position_def)
  next
    case refpoint: (Inr refpoint)
    show ?thesis
    proof (cases "rotation_matrix cls mpar")
      case (Inl e2)
      with failed refpoint show ?thesis
        by (simp add: Geometry_det_point_position_def)
    next
      case rot: (Inr rot)
      show ?thesis
      proof (cases "attr_detector self")
        case None
        with failed refpoint rot show ?thesis
          by (simp add: Geometry_det_point_position_def detector_prop_def)
      next
        case det: (Some det)
        show ?thesis
        proof (cases "surface det dpar")
          case (Inl e4)
          with failed refpoint rot det show ?thesis
            by (simp add: Geometry_det_point_position_def detector_prop_def)
        next
          case (Inr surf)
          with failed refpoint rot det show ?thesis
            by (simp add: Geometry_det_point_position_def detector_prop_def)
        qed
      qed
    qed
  qed
qed

text \<open>
  Two calls outside the domains that return: a detector parameter outside \<open>[0, 1]\<close>, and an
  angle outside \<open>[0, 1]\<close> for the geometry whose rotation has no check.
\<close>

theorem Geometry_det_point_position_formula_witness:
  "\<not> contains (params example_detector) 5
   \<and> Geometry_det_point_position example_class example_self 0 5
       = Inr (Arr1 [Fin 1, Fin 5, Fin 0])
   \<and> \<not> contains example_interval 2
   \<and> Geometry_det_point_position unchecked_class example_self 2 5
       = Inr (Arr1 [Fin (cos 2 - 5 * sin 2), Fin (sin 2 + 5 * cos 2), Fin 0])"
proof -
  have ref0: "det_refpoint example_class 0 = Inr (Arr1 [Fin 1, Fin 0, Fin 0])"
    by (simp add: example_class_def)
  have surf: "surface example_detector 5 = Inr (Arr1 [Fin 0, Fin 5, Fin 0])"
    by (simp add: example_detector_def)
  have rot2: "rotation_matrix unchecked_class 2
                = Inr (Arr2 [[Fin (cos 2), Fin (- sin 2), Fin 0],
                             [Fin (sin 2), Fin (cos 2), Fin 0],
                             [Fin 0, Fin 0, Fin 1]])"
    by (simp add: unchecked_class_def)
  have ref2: "det_refpoint unchecked_class 2 = Inr (Arr1 [Fin (cos 2), Fin (sin 2), Fin 0])"
    by (simp add: unchecked_class_def example_class_def)
  have "Geometry_det_point_position example_class example_self 0 5
          = Inr (Arr1 [Fin 1, Fin 5, Fin 0])"
    using Geometry_det_point_position_formula [of example_class 0 example_self 5,
            THEN conjunct1, THEN spec, THEN spec, THEN spec, THEN spec, THEN mp,
            of "[Fin 1, Fin 0, Fin 0]"
               "[[Fin 1, Fin 0, Fin 0], [Fin 0, Fin 1, Fin 0], [Fin 0, Fin 0, Fin 1]]"
               example_detector "[Fin 0, Fin 5, Fin 0]"]
      ref0 example_rotation_at_0 surf example_self_attrs(2)
    by (simp add: mat_vec_def fsum_def)
  moreover have "Geometry_det_point_position unchecked_class example_self 2 5
          = Inr (Arr1 [Fin (cos 2 - 5 * sin 2), Fin (sin 2 + 5 * cos 2), Fin 0])"
    using Geometry_det_point_position_formula [of unchecked_class 2 example_self 5,
            THEN conjunct1, THEN spec, THEN spec, THEN spec, THEN spec, THEN mp,
            of "[Fin (cos 2), Fin (sin 2), Fin 0]"
               "[[Fin (cos 2), Fin (- sin 2), Fin 0], [Fin (sin 2), Fin (cos 2), Fin 0],
                 [Fin 0, Fin 0, Fin 1]]"
               example_detector "[Fin 0, Fin 5, Fin 0]"]
      ref2 rot2 surf example_self_attrs(2)
    by (simp add: mat_vec_def fsum_def)
  moreover have "\<not> contains (params example_detector) 5" "\<not> contains example_interval 2"
    by (simp_all add: example_detector_def example_interval_def)
  ultimately show ?thesis
    by blast
qed

subsection \<open>The direction from detector to source\<close>

text \<open>
  C2. \<^verbatim>\<open>det_to_src\<close> of \<^verbatim>\<open>DivergentBeamGeometry\<close> raises the domain error for the motion
  parameter when \<^verbatim>\<open>mpar\<close> is outside \<^verbatim>\<open>motion_params\<close>, and the one for the detector
  parameter when \<^verbatim>\<open>mpar\<close> is inside and \<^verbatim>\<open>dpar\<close> is outside \<^verbatim>\<open>det_params\<close>. For parameters
  inside both domains it is the code after the checks: the source position minus the
  detector point position, divided by its norm along the trailing axis when
  \<^verbatim>\<open>normalized\<close> is set. When both positions are vectors of one length, that is the
  vector of differences, each entry divided by the norm when \<^verbatim>\<open>normalized\<close> is set.
\<close>

theorem DivergentBeamGeometry_det_to_src_domain_check:
  assumes "attr_motion_params self = Some mp" and "attr_detector self = Some det"
  shows
    "(\<not> contains mp mpar
        \<longrightarrow> DivergentBeamGeometry_det_to_src cls self mpar dpar normalized
              = Inl (ValueError ''mpar {} is not in the valid range {}.''))
     \<and> (contains mp mpar \<and> \<not> contains (params det) dpar
        \<longrightarrow> DivergentBeamGeometry_det_to_src cls self mpar dpar normalized
              = Inl (ValueError ''detector parameter {} is not in the valid range {}.''))
     \<and> (contains mp mpar \<and> contains (params det) dpar
        \<longrightarrow> DivergentBeamGeometry_det_to_src cls self mpar dpar normalized
              = ebind (src_position cls mpar) (\<lambda>src.
                ebind (Geometry_det_point_position cls self mpar dpar) (\<lambda>pos.
                ebind (np_subtract src pos) (\<lambda>vec.
                  if normalized
                  then ebind (np_linalg_norm_last vec) (\<lambda>n. np_idivide vec n)
                  else Inr vec))))
     \<and> (\<forall>s p. contains mp mpar \<and> contains (params det) dpar
          \<and> src_position cls mpar = Inr (Arr1 s)
          \<and> Geometry_det_point_position cls self mpar dpar = Inr (Arr1 p)
          \<and> length s = length p
        \<longrightarrow> DivergentBeamGeometry_det_to_src cls self mpar dpar normalized
              = Inr (Arr1 (if normalized
                           then map (\<lambda>x. fdiv x (norm2 (map2 fsub s p))) (map2 fsub s p)
                           else map2 fsub s p)))"
proof (intro conjI allI impI)
  assume "\<not> contains mp mpar"
  then show "DivergentBeamGeometry_det_to_src cls self mpar dpar normalized
               = Inl (ValueError ''mpar {} is not in the valid range {}.'')"
    by (simp add: DivergentBeamGeometry_det_to_src_def props_of_attrs [OF assms])
next
  assume "contains mp mpar \<and> \<not> contains (params det) dpar"
  then show "DivergentBeamGeometry_det_to_src cls self mpar dpar normalized
               = Inl (ValueError ''detector parameter {} is not in the valid range {}.'')"
    by (simp add: DivergentBeamGeometry_det_to_src_def props_of_attrs [OF assms])
next
  assume "contains mp mpar \<and> contains (params det) dpar"
  then show "DivergentBeamGeometry_det_to_src cls self mpar dpar normalized
               = ebind (src_position cls mpar) (\<lambda>src.
                 ebind (Geometry_det_point_position cls self mpar dpar) (\<lambda>pos.
                 ebind (np_subtract src pos) (\<lambda>vec.
                   if normalized
                   then ebind (np_linalg_norm_last vec) (\<lambda>n. np_idivide vec n)
                   else Inr vec)))"
    using det_to_src_in_domain [OF assms] by simp
next
  fix s p
  assume "contains mp mpar \<and> contains (params det) dpar
          \<and> src_position cls mpar = Inr (Arr1 s)
          \<and> Geometry_det_point_position cls self mpar dpar = Inr (Arr1 p)
          \<and> length s = length p"
  then show "DivergentBeamGeometry_det_to_src cls self mpar dpar normalized
               = Inr (Arr1 (if normalized
                            then map (\<lambda>x. fdiv x (norm2 (map2 fsub s p))) (map2 fsub s p)
                            else map2 fsub s p))"
    using det_to_src_vectors [OF assms] by simp
qed

theorem DivergentBeamGeometry_det_to_src_domain_check_witness:
  "DivergentBeamGeometry_det_to_src example_class example_self 2 0 True
     = Inl (ValueError ''mpar {} is not in the valid range {}.'')
   \<and> DivergentBeamGeometry_det_to_src example_class example_self 0 2 True
     = Inl (ValueError ''detector parameter {} is not in the valid range {}.'')
   \<and> DivergentBeamGeometry_det_to_src example_class example_self 0 0 False
     = Inr (Arr1 [Fin (- 2), Fin 0, Fin 0])
   \<and> DivergentBeamGeometry_det_to_src example_class example_self 0 0 True
     = Inr (Arr1 [Fin (- 1), Fin 0, Fin 0])"
  using DivergentBeamGeometry_det_to_src_domain_check
          [OF example_self_attrs, of 2 example_class 0 True]
        DivergentBeamGeometry_det_to_src_domain_check
          [OF example_self_attrs, of 0 example_class 2 True]
        DivergentBeamGeometry_det_to_src_domain_check
          [OF example_self_attrs, of 0 example_class 0 False]
        DivergentBeamGeometry_det_to_src_domain_check
          [OF example_self_attrs, of 0 example_class 0 True]
  by (simp add: example_domains example_src_at_0 example_point_at_0 fsub_def example_norms
        np_subtract_def np_binop_Arr1 np_idivide_scalar)

text \<open>
  C1, as the specification states it, does not hold: where the source lies on the detector
  point, the difference is the zero vector, the division is \<^verbatim>\<open>0.0 / 0.0\<close> in every entry
  and the result is a vector of nan, whose norm is not 1.
\<close>

theorem det_to_src_coincident_source:
  "contains example_interval 0 \<and> contains (params example_detector) 0
   \<and> DivergentBeamGeometry_det_to_src coincident_class example_self 0 0 True
       = Inr (Arr1 [NaN, NaN, NaN])
   \<and> euclidean_norm (Arr1 [NaN, NaN, NaN]) \<noteq> Fin 1"
proof -
  have src: "src_position coincident_class 0 = Inr (Arr1 [Fin 1, Fin 0, Fin 0])"
    by (simp add: coincident_class_def example_class_def)
  have len: "length [Fin 1, Fin 0, Fin 0] = length [Fin 1, Fin 0, Fin 0]"
    by simp
  have "DivergentBeamGeometry_det_to_src coincident_class example_self 0 0 True
               = Inr (Arr1 [NaN, NaN, NaN])"
    using det_to_src_vectors [OF example_self_attrs example_domains(1,2) src
            coincident_point_at_0 len, of True]
    by (simp add: fsub_def norm2_def sumsq_def)
  then show ?thesis
    by (simp add: example_domains euclidean_norm_def fsum_def)
qed

text \<open>
  The norm of line 323 fails in the same way where the squares of the difference leave the
  range of a double: for a difference with an entry \<^verbatim>\<open>2^700\<close> the norm is \<^verbatim>\<open>inf\<close> and the
  result is the zero vector; for the difference \<^verbatim>\<open>(2^-700, 0, 0)\<close> the norm is zero and the
  result is \<^verbatim>\<open>(inf, nan, nan)\<close>.
\<close>

lemma normalisation_out_of_range:
  "ebind (np_linalg_norm_last (Arr1 [Fin example_huge, Fin 1, Fin 0]))
     (\<lambda>n. np_idivide (Arr1 [Fin example_huge, Fin 1, Fin 0]) n)
     = Inr (Arr1 [Fin 0, Fin 0, Fin 0])"
  "ebind (np_linalg_norm_last (Arr1 [Fin example_tiny, Fin 0, Fin 0]))
     (\<lambda>n. np_idivide (Arr1 [Fin example_tiny, Fin 0, Fin 0]) n)
     = Inr (Arr1 [PInf, NaN, NaN])"
  using example_squares(3)
  by (simp_all add: np_idivide_scalar norm2_def sumsq_def example_squares(1,2) to_float_1)

text \<open>
  C1, amended. For a motion parameter and a detector parameter inside their domains, at
  which the source position and the detector point position are finite vectors of one
  length that differ, and whose difference has its squares in the range of a double (every
  non-zero entry squared is at least \<^verbatim>\<open>2^-1022\<close>, the sum of the squares at most
  \<^verbatim>\<open>2^1023\<close>), \<^verbatim>\<open>det_to_src\<close> with \<^verbatim>\<open>normalized\<close> set returns the difference divided by its
  Euclidean norm: a vector of that length and of Euclidean norm 1, rounding apart.
\<close>

theorem DivergentBeamGeometry_det_to_src_unit_norm:
  assumes "attr_motion_params self = Some mp" and "attr_detector self = Some det"
    and "contains mp mpar" and "contains (params det) dpar"
    and "src_position cls mpar = Inr (Arr1 (map Fin s))"
    and "Geometry_det_point_position cls self mpar dpar = Inr (Arr1 (map Fin p))"
    and "length s = length p" and "s \<noteq> p"
    and "squares_in_range (map2 (-) s p)"
  shows "\<exists>u. DivergentBeamGeometry_det_to_src cls self mpar dpar True = Inr (Arr1 (map Fin u))
             \<and> u = map (\<lambda>x. x / sqrt (\<Sum>y\<leftarrow>map2 (-) s p. y * y)) (map2 (-) s p)
             \<and> length u = length s \<and> euclidean_norm (Arr1 (map Fin u)) = Fin 1"
proof -
  let ?d = "map2 (-) s p"
  let ?u = "map (\<lambda>x. x / sqrt (\<Sum>y\<leftarrow>?d. y * y)) ?d"
  have nz: "\<exists>x\<in>set ?d. x \<noteq> 0"
    using assms(7,8) by (rule differ_nonzero_entry)
  have "length (map Fin s) = length (map Fin p)"
    using assms(7) by simp
  from det_to_src_vectors [OF assms(1-6) this, of True]
  have "DivergentBeamGeometry_det_to_src cls self mpar dpar True
          = Inr (Arr1 (map (\<lambda>x. fdiv x (norm2 (map Fin ?d))) (map Fin ?d)))"
    by (simp only: map2_fsub_Fin if_True)
  then have "DivergentBeamGeometry_det_to_src cls self mpar dpar True = Inr (Arr1 (map Fin ?u))"
    by (simp only: normalized_unit_norm(1) [OF nz assms(9)])
  moreover have "length ?u = length s"
    using assms(7) by simp
  moreover have "euclidean_norm (Arr1 (map Fin ?u)) = Fin 1"
    using nz assms(9) by (rule normalized_unit_norm(2))
  ultimately show ?thesis
    by blast
qed

theorem DivergentBeamGeometry_det_to_src_unit_norm_witness:
  "\<exists>u. DivergentBeamGeometry_det_to_src example_class example_self 0 (1 / 2) True
          = Inr (Arr1 (map Fin u))
        \<and> length u = 3 \<and> euclidean_norm (Arr1 (map Fin u)) = Fin 1"
proof -
  have src: "src_position example_class 0 = Inr (Arr1 (map Fin [- 1, 0, 0]))"
    by (simp add: example_class_def)
  have pos: "Geometry_det_point_position example_class example_self 0 (1 / 2)
               = Inr (Arr1 (map Fin [1, 1 / 2, 0]))"
    by (simp add: example_point_at_0)
  have dom: "contains example_interval 0" "contains (params example_detector) (1 / 2)"
    by (simp_all add: example_interval_def example_detector_def)
  have len: "length [- 1, 0, 0 :: real] = length [1, 1 / 2, 0 :: real]"
    and ne: "[- 1, 0, 0 :: real] \<noteq> [1, 1 / 2, 0]"
    by simp_all
  have rng: "squares_in_range (map2 (-) [- 1, 0, 0] [1, 1 / 2, 0])"
    by (rule squares_in_range_moderate) simp_all
  from DivergentBeamGeometry_det_to_src_unit_norm [OF example_self_attrs dom src pos len ne rng]
  obtain u where "DivergentBeamGeometry_det_to_src example_class example_self 0 (1 / 2) True
                    = Inr (Arr1 (map Fin u))"
    and "length u = length [- 1, 0, 0 :: real]" and "euclidean_norm (Arr1 (map Fin u)) = Fin 1"
    by blast
  then show ?thesis
    by (intro exI [of _ u]) simp
qed

subsection \<open>The constructor of AxisOrientedGeometry\<close>

text \<open>
  C7, as the specification states it, does not hold: the zero vector has three components,
  the constructor accepts it, and the stored axis is a vector of nan, whose norm is not 1.
\<close>

theorem AxisOrientedGeometry_init_zero_axis:
  "AxisOrientedGeometry_init \<lparr>attr_axis = None\<rparr> (Arr1 [Fin 0, Fin 0, Fin 0])
     = (Inr (), \<lparr>attr_axis = Some (Arr1 [NaN, NaN, NaN])\<rparr>)
   \<and> euclidean_norm (Arr1 [NaN, NaN, NaN]) \<noteq> Fin 1"
  by (simp add: init_result np_linalg_norm_def norm2_def sumsq_def euclidean_norm_def fsum_def)

text \<open>
  The norm of line 340 fails in the same way where the squares of the input leave the range
  of a double: for \<^verbatim>\<open>(2^700, 0, 0)\<close> the norm is \<^verbatim>\<open>inf\<close> and the stored axis is the zero
  vector; for \<^verbatim>\<open>(2^-700, 0, 0)\<close> the norm is zero and the stored axis is
  \<^verbatim>\<open>(inf, nan, nan)\<close>.
\<close>

lemma AxisOrientedGeometry_init_out_of_range:
  "AxisOrientedGeometry_init \<lparr>attr_axis = None\<rparr> (Arr1 [Fin example_huge, Fin 0, Fin 0])
     = (Inr (), \<lparr>attr_axis = Some (Arr1 [Fin 0, Fin 0, Fin 0])\<rparr>)"
  "AxisOrientedGeometry_init \<lparr>attr_axis = None\<rparr> (Arr1 [Fin example_tiny, Fin 0, Fin 0])
     = (Inr (), \<lparr>attr_axis = Some (Arr1 [PInf, NaN, NaN])\<rparr>)"
  using example_squares(3)
  by (simp_all add: init_result np_linalg_norm_def norm2_def sumsq_def example_squares(1,2))

text \<open>
  C7, amended. The constructor raises \<^verbatim>\<open>ValueError\<close> exactly when the shape of the input
  is not \<^verbatim>\<open>(3,)\<close>. The check comes after the normalisation: in either case the attribute
  holds the input divided by the norm that numpy computes for it. For a finite input of
  three components that is not the zero vector and has its squares in the range of a double
  (every non-zero entry squared is at least \<^verbatim>\<open>2^-1022\<close>, the sum of the squares at most
  \<^verbatim>\<open>2^1023\<close>), the constructor returns and the stored axis is the input divided by its
  Euclidean norm: a finite vector of three components and of Euclidean norm 1, rounding
  apart.
\<close>

theorem AxisOrientedGeometry_init_normalizes:
  "fst (AxisOrientedGeometry_init self axis)
     = (if shape axis = [3] then Inr ()
        else Inl (ValueError ''axis {!r} not a 3 element array-like''))
   \<and> attr_axis (snd (AxisOrientedGeometry_init self axis))
     = Some (array_map (\<lambda>x. fdiv x (np_linalg_norm axis)) axis)
   \<and> (\<forall>v. axis = Arr1 (map Fin v) \<and> length v = 3 \<and> (\<exists>x\<in>set v. x \<noteq> 0)
          \<and> squares_in_range v
        \<longrightarrow> fst (AxisOrientedGeometry_init self axis) = Inr ()
            \<and> attr_axis (snd (AxisOrientedGeometry_init self axis))
                = Some (Arr1 (map Fin (map (\<lambda>x. x / sqrt (\<Sum>y\<leftarrow>v. y * y)) v)))
            \<and> euclidean_norm (Arr1 (map Fin (map (\<lambda>x. x / sqrt (\<Sum>y\<leftarrow>v. y * y)) v)))
                = Fin 1)"
proof -
  have c1: "fst (AxisOrientedGeometry_init self axis)
          = (if shape axis = [3] then Inr ()
             else Inl (ValueError ''axis {!r} not a 3 element array-like''))"
    by (simp add: init_result)
  have c2: "attr_axis (snd (AxisOrientedGeometry_init self axis))
          = Some (array_map (\<lambda>x. fdiv x (np_linalg_norm axis)) axis)"
    by (simp add: init_result)
  have c3: "fst (AxisOrientedGeometry_init self axis) = Inr ()
            \<and> attr_axis (snd (AxisOrientedGeometry_init self axis))
                = Some (Arr1 (map Fin (map (\<lambda>x. x / sqrt (\<Sum>y\<leftarrow>v. y * y)) v)))
            \<and> euclidean_norm (Arr1 (map Fin (map (\<lambda>x. x / sqrt (\<Sum>y\<leftarrow>v. y * y)) v)))
                = Fin 1"
    if a: "axis = Arr1 (map Fin v) \<and> length v = 3 \<and> (\<exists>x\<in>set v. x \<noteq> 0)
           \<and> squares_in_range v" for v
  proof -
    let ?S = "\<Sum>y\<leftarrow>v. y * y"
    from a have ax: "axis = Arr1 (map Fin v)" and len: "length v = 3"
      and nz: "\<exists>x\<in>set v. x \<noteq> 0" and rng: "squares_in_range v"
      by simp_all
    have p1: "fst (AxisOrientedGeometry_init self axis) = Inr ()"
      using len by (simp add: init_result ax)
    have "array_map (\<lambda>x. fdiv x (np_linalg_norm axis)) axis
            = Arr1 (map (\<lambda>x. fdiv x (norm2 (map Fin v))) (map Fin v))"
      unfolding ax by (simp add: np_linalg_norm_def)
    also have "\<dots> = Arr1 (map Fin (map (\<lambda>x. x / sqrt ?S) v))"
      by (simp only: normalized_unit_norm(1) [OF nz rng])
    finally have p2: "attr_axis (snd (AxisOrientedGeometry_init self axis))
          = Some (Arr1 (map Fin (map (\<lambda>x. x / sqrt ?S) v)))"
      by (simp only: c2)
    have p3: "euclidean_norm (Arr1 (map Fin (map (\<lambda>x. x / sqrt ?S) v))) = Fin 1"
      using nz rng by (rule normalized_unit_norm(2))
    from p1 p2 p3 show ?thesis
      by (intro conjI)
  qed
  from c1 c2 c3 show ?thesis
    by blast
qed

theorem AxisOrientedGeometry_init_normalizes_witness:
  "fst (AxisOrientedGeometry_init \<lparr>attr_axis = None\<rparr> (Arr1 [Fin 0, Fin 0, Fin 2])) = Inr ()
   \<and> attr_axis (snd (AxisOrientedGeometry_init \<lparr>attr_axis = None\<rparr>
                       (Arr1 [Fin 0, Fin 0, Fin 2])))
       = Some (Arr1 [Fin 0, Fin 0, Fin 1])
   \<and> euclidean_norm (Arr1 [Fin 0, Fin 0, Fin 1]) = Fin 1
   \<and> fst (AxisOrientedGeometry_init \<lparr>attr_axis = None\<rparr> (Arr1 [Fin 1, Fin 0]))
       = Inl (ValueError ''axis {!r} not a 3 element array-like'')"
proof -
  have root: "sqrt (\<Sum>y\<leftarrow>[0, 0, 2 :: real]. y * y) = 2"
    by simp
  have rng: "squares_in_range [0, 0, 2]"
    by (rule squares_in_range_moderate) simp_all
  have hyp: "Arr1 [Fin 0, Fin 0, Fin 2] = Arr1 (map Fin [0, 0, 2])
             \<and> length [0, 0, 2 :: real] = 3 \<and> (\<exists>x\<in>set [0, 0, 2 :: real]. x \<noteq> 0)
             \<and> squares_in_range [0, 0, 2]"
    using rng by simp
  from AxisOrientedGeometry_init_normalizes
         [of "\<lparr>attr_axis = None\<rparr>" "Arr1 [Fin 0, Fin 0, Fin 2]",
          THEN conjunct2, THEN conjunct2, THEN spec, of "[0, 0, 2]", THEN mp, OF hyp]
  have three: "fst (AxisOrientedGeometry_init \<lparr>attr_axis = None\<rparr>
                      (Arr1 [Fin 0, Fin 0, Fin 2])) = Inr ()
        \<and> attr_axis (snd (AxisOrientedGeometry_init \<lparr>attr_axis = None\<rparr>
                            (Arr1 [Fin 0, Fin 0, Fin 2])))
            = Some (Arr1 [Fin 0, Fin 0, Fin 1])
        \<and> euclidean_norm (Arr1 [Fin 0, Fin 0, Fin 1]) = Fin 1"
    unfolding root by simp
  from AxisOrientedGeometry_init_normalizes
         [of "\<lparr>attr_axis = None\<rparr>" "Arr1 [Fin 1, Fin 0]", THEN conjunct1]
  have two: "fst (AxisOrientedGeometry_init \<lparr>attr_axis = None\<rparr> (Arr1 [Fin 1, Fin 0]))
       = Inl (ValueError ''axis {!r} not a 3 element array-like'')"
    by simp
  from three two show ?thesis
    by blast
qed

subsection \<open>The rotation matrix\<close>

text \<open>
  C3. For an axis that the constructor of \<^verbatim>\<open>AxisOrientedGeometry\<close> accepted and an angle in
  \<^verbatim>\<open>motion_params\<close>, \<^verbatim>\<open>rotation_matrix\<close> returns the matrix of Rodrigues' formula for the
  stored axis: \<open>cos \<theta> \<cdot> I + (1 - cos \<theta>) \<cdot> (a \<otimes> a) + sin \<theta> \<cdot> K\<close>.
\<close>

theorem AxisOrientedGeometry_rotation_matrix_rodrigues:
  assumes "AxisOrientedGeometry_init self0 axis = (Inr (), self)" and "contains mp angle"
  shows "\<exists>a. attr_axis self = Some (Arr1 a) \<and> length a = 3
             \<and> AxisOrientedGeometry_rotation_matrix self mp angle
                 = Inr (rodrigues_formula a angle)"
proof -
  from assms(1) have sh: "shape axis = [3]"
    and self: "self = self0\<lparr>attr_axis := Some (array_map (\<lambda>x. fdiv x (np_linalg_norm axis)) axis)\<rparr>"
    by (simp_all add: init_result split: if_splits)
  from sh obtain x y z where axis: "axis = Arr1 [x, y, z]"
    by (rule shape_3_cases)
  define n where "n = np_linalg_norm axis"
  have stored: "attr_axis self = Some (Arr1 [fdiv x n, fdiv y n, fdiv z n])"
    unfolding self n_def by (simp add: axis)
  have "AxisOrientedGeometry_rotation_matrix self mp angle
          = Inr (rodrigues_formula [fdiv x n, fdiv y n, fdiv z n] angle)"
    unfolding rodrigues_formula_entries
    using stored assms(2) by (rule rotation_matrix_entries)
  with stored show ?thesis
    by simp
qed

theorem AxisOrientedGeometry_rotation_matrix_rodrigues_witness:
  "\<exists>a. attr_axis example_axis_self = Some (Arr1 a) \<and> length a = 3
       \<and> AxisOrientedGeometry_rotation_matrix example_axis_self example_interval 1
           = Inr (rodrigues_formula a 1)"
proof -
  have "contains example_interval 1"
    by (simp add: example_interval_def)
  with example_axis_init show ?thesis
    by (rule AxisOrientedGeometry_rotation_matrix_rodrigues)
qed

text \<open>
  C4. For a stored axis of three components and (exact) Euclidean norm 1, every matrix that
  \<^verbatim>\<open>rotation_matrix\<close> returns is orthogonal (its transpose times itself is the identity)
  and has determinant 1.
\<close>

theorem AxisOrientedGeometry_rotation_matrix_proper:
  assumes "attr_axis self = Some ax" and "shape ax = [3]" and "euclidean_norm ax = Fin 1"
    and "AxisOrientedGeometry_rotation_matrix self mp angle = Inr R"
  shows "proper_rotation R"
proof -
  from assms(2) obtain x y z where ax: "ax = Arr1 [x, y, z]"
    by (rule shape_3_cases)
  from assms(3) obtain a0 a1 a2 where fin: "x = Fin a0" "y = Fin a1" "z = Fin a2"
    and unit: "a0 * a0 + a1 * a1 + a2 * a2 = 1"
    unfolding ax by (blast dest: unit_axis_finite)
  have dom: "contains mp angle"
    using assms(4) by (auto simp: AxisOrientedGeometry_rotation_matrix_def split: if_splits)
  have stored: "attr_axis self = Some (Arr1 [Fin a0, Fin a1, Fin a2])"
    using assms(1) by (simp add: ax fin)
  define c s where "c = cos angle" and "s = sin angle"
  have trig: "s * s + c * c = 1"
    unfolding c_def s_def using sin_cos_squared_add [of angle] by (simp add: power2_eq_square)
  have R: "R = Arr2 [[Fin (c + (1 - c) * (a0 * a0)),
                      Fin ((1 - c) * (a0 * a1) - s * a2),
                      Fin ((1 - c) * (a0 * a2) + s * a1)],
                     [Fin ((1 - c) * (a1 * a0) + s * a2),
                      Fin (c + (1 - c) * (a1 * a1)),
                      Fin ((1 - c) * (a1 * a2) - s * a0)],
                     [Fin ((1 - c) * (a2 * a0) - s * a1),
                      Fin ((1 - c) * (a2 * a1) + s * a0),
                      Fin (c + (1 - c) * (a2 * a2))]]"
    using assms(4) unfolding rotation_matrix_entries [OF stored dom] c_def s_def
    by simp
  show ?thesis
    unfolding R proper_rotation_entries
    using rodrigues_real_proper [OF unit trig] by (intro conjI)
qed

theorem AxisOrientedGeometry_rotation_matrix_proper_witness:
  "\<exists>R. AxisOrientedGeometry_rotation_matrix example_axis_self example_interval 1 = Inr R
       \<and> proper_rotation R"
proof -
  have dom: "contains example_interval 1"
    by (simp add: example_interval_def)
  have unit: "euclidean_norm (Arr1 [Fin 0, Fin 0, Fin 1]) = Fin 1"
    by (simp add: euclidean_norm_def fsum_def)
  have sh: "shape (Arr1 [Fin 0, Fin 0, Fin 1]) = [3]"
    by simp
  from rotation_matrix_entries [OF example_axis dom]
  obtain R where R: "AxisOrientedGeometry_rotation_matrix example_axis_self example_interval 1
                       = Inr R"
    by blast
  from example_axis sh unit R have "proper_rotation R"
    by (rule AxisOrientedGeometry_rotation_matrix_proper)
  with R show ?thesis
    by blast
qed

end
